theory Spec2Isabelle
  imports Main "HOL-Library.Sublist" "HOL-Library.Word"
begin

section \<open>Go values: errors, panics, results\<close>

text \<open>
  A Go \<^verbatim>\<open>error\<close> value. \<open>errorString m\<close> is what \<^verbatim>\<open>fmt.Errorf\<close> and
  \<^verbatim>\<open>errors.New\<close> build, with the formatted message \<open>m\<close>. The three \<^verbatim>\<open>encoding/csv\<close>
  sentinels are package variables; \<open>csv_ParseError e\<close> is the pointer
  \<^verbatim>\<open>&csv.ParseError{..., Err: e}\<close> (line and column left out), a value different from
  the sentinel \<open>e\<close> it wraps. \<open>lib_error m\<close> stands for every other error a library
  call hands back (os, net/http, io, encoding/json, strconv).
\<close>

datatype go_error =
    errorString string
  | io_EOF
  | csv_ErrFieldCount
  | csv_ErrBareQuote
  | csv_ErrQuote
  | csv_ParseError go_error
  | lib_error string

text \<open>
  What a call does: it returns a value, returns a non-nil \<^verbatim>\<open>error\<close>, or panics
  (a run-time panic is not an \<^verbatim>\<open>error\<close> value: nothing in the program recovers, the
  process dies).
\<close>

datatype 'a result = Ok 'a | Err go_error | Panic string

text \<open>\<^verbatim>\<open>xs[i]\<close> on a slice: a run-time panic when \<open>i\<close> is out of range.\<close>

definition index :: "'a list \<Rightarrow> nat \<Rightarrow> 'a result" where
  "index xs i = (if i < length xs then Ok (xs ! i) else Panic ''index out of range'')"

section \<open>The functions of package strings the program calls\<close>

text \<open>
  \<^verbatim>\<open>strings.Split(s, sep)\<close> for a non-empty \<open>sep\<close>: the substrings between the
  occurrences of \<open>sep\<close>, found left to right. \<open>cur\<close> is the piece read so far.
  (With an empty \<open>sep\<close> Go splits after each UTF-8 sequence; the program never does that,
  and the model then returns the string whole.)
\<close>

fun split_from :: "string \<Rightarrow> string \<Rightarrow> string \<Rightarrow> string list" where
  "split_from sep cur [] = [cur]"
| "split_from sep cur (c # cs) =
     (if sep \<noteq> [] \<and> prefix sep (c # cs)
      then cur # split_from sep [] (drop (length sep - 1) cs)
      else split_from sep (cur @ [c]) cs)"

definition strings_Split :: "string \<Rightarrow> string \<Rightarrow> string list" where
  "strings_Split s sep = split_from sep [] s"

definition strings_HasSuffix :: "string \<Rightarrow> string \<Rightarrow> bool" where
  "strings_HasSuffix s suf = suffix suf s"

text \<open>
  \<^verbatim>\<open>strings.Replace(s, old, new, n)\<close> for a non-empty \<open>old\<close>: the first \<open>n\<close>
  occurrences of \<open>old\<close> replaced by \<open>new\<close>, all of them when \<open>n < 0\<close>.
\<close>

fun strings_Replace :: "string \<Rightarrow> string \<Rightarrow> string \<Rightarrow> int \<Rightarrow> string" where
  "strings_Replace [] old new n = []"
| "strings_Replace (c # cs) old new n =
     (if old = new \<or> n = 0 \<or> old = [] then c # cs
      else if prefix old (c # cs)
      then new @ strings_Replace (drop (length old - 1) cs) old new (n - 1)
      else c # strings_Replace cs old new n)"

section \<open>parseAWSLocation\<close>

text \<open>
  \<^verbatim>\<open>var location string\<close> starts as the empty string. The guard is
  \<^verbatim>\<open>len(split) > 0\<close> and the read is \<^verbatim>\<open>split[1]\<close>.
\<close>

definition parseAWSLocation :: "string \<Rightarrow> string result" where
  "parseAWSLocation input =
     (let split = strings_Split input ''(''
      in case (if length split > 0 then index split 1 else Ok [])
         of Panic p \<Rightarrow> Panic p
          | Err e \<Rightarrow> Err e
          | Ok location \<Rightarrow>
              Ok (if strings_HasSuffix location '')''
                  then strings_Replace location '')'' [] 1
                  else location))"

section \<open>The data model\<close>

text \<open>
  A \<^verbatim>\<open>float64\<close> is its 64 bits; the literal \<^verbatim>\<open>0\<close> is the word \<open>0\<close>. The program
  never computes with a coordinate: it gets one from \<^verbatim>\<open>strconv.ParseFloat\<close> or from
  the literal \<^verbatim>\<open>0\<close> and hands it to \<^verbatim>\<open>fmt.Sprintf("%f", _)\<close>. Both library
  functions are inputs of the model (see \<open>world\<close> below).
\<close>

type_synonym float64 = "64 word"

record Region =
  CloudProvider :: string
  CloudRegion :: string
  Location :: string
  LocationOverride :: string
  LocationSource :: string
  LocationType :: string
  Latitude :: float64
  Longitude :: float64
  ElectricityMapsZone :: string
  WattTimeRegion :: string

record ElectricityMapsResponse =
  Zone :: string

record OpenStreetMapPlace =
  Lat :: string
  Lon :: string

record WattTimeLoginResp =
  Token :: string

record WattTimeRegionResp =
  Region :: string

definition awsCloudProvider :: string where
  "awsCloudProvider = ''Amazon Web Services''"

definition electricityMapsAPIKeyEnvVar :: string where
  "electricityMapsAPIKeyEnvVar = ''ELECTRICITY_MAPS_API_KEY''"

definition wattTimeUserEnvVar :: string where
  "wattTimeUserEnvVar = ''WATT_TIME_USER''"

definition wattTimePasswordEnvVar :: string where
  "wattTimePasswordEnvVar = ''WATT_TIME_PASSWORD''"

definition header :: "string list" where
  "header =
     [''cloud_provider'', ''cloud_region'', ''location'', ''location_override'',
      ''location_source'', ''location_type'', ''latitude'', ''longitude'',
      ''electricity_maps_zone'', ''watt_time_region'']"

section \<open>The outside world\<close>

text \<open>
  The four HTTP requests the program builds. Each URL is a fixed base URL followed by
  \<^verbatim>\<open>url.Values.Encode()\<close> of the parameters, so a request is determined by the
  strings kept here:
  \<^item> \<open>ElectricityMapsGet apiKey lat lon\<close>: header \<^verbatim>\<open>auth-token\<close>, parameters
    \<^verbatim>\<open>lat\<close> and \<^verbatim>\<open>lon\<close>;
  \<^item> \<open>OpenStreetMapGet locationType location\<close>: the parameter named by
    \<open>locationType\<close>, with \<^verbatim>\<open>format=json\<close> and \<^verbatim>\<open>limit=1\<close>;
  \<^item> \<open>WattTimeLoginGet user password\<close>: basic authentication;
  \<^item> \<open>WattTimeRegionGet token latitude longitude\<close>: bearer token, with
    \<^verbatim>\<open>signal_type=co2_moer\<close>.
\<close>

datatype request =
    ElectricityMapsGet string string string
  | OpenStreetMapGet string string
  | WattTimeLoginGet string string
  | WattTimeRegionGet string string string

text \<open>
  An HTTP response: its status code, and what \<^verbatim>\<open>io.ReadAll(resp.Body)\<close> gives
  (the bytes, or an error).
\<close>

record response =
  StatusCode :: nat
  Body :: "go_error + string"

text \<open>
  The input file as \<^verbatim>\<open>encoding/csv\<close> lexes it, one entry per record of the file
  (the lexer skips empty lines): \<open>Fields fs\<close> is a record that lexes into the fields
  \<open>fs\<close>; \<open>Rejected fs why\<close> is one where lexing stops after the fields \<open>fs\<close>, on a
  quoting error or a failed read.
\<close>

datatype csv_reject = BareQuote | BadQuote | ReadFails string

datatype csv_line = Fields "string list" | Rejected "string list" csv_reject

text \<open>
  Everything the program reads from or calls outside itself:
  \<^item> \<open>Getenv\<close>: \<^verbatim>\<open>os.Getenv\<close> (the empty string for an unset variable);
  \<^item> \<open>Args\<close>: \<^verbatim>\<open>os.Args\<close>;
  \<^item> \<open>Open\<close>: \<^verbatim>\<open>os.Open\<close> followed by the lexing of the file;
  \<^item> \<open>NewRequest\<close>: the error of \<^verbatim>\<open>http.NewRequestWithContext\<close>, if any;
  \<^item> \<open>client_Do\<close>: \<^verbatim>\<open>http.DefaultClient.Do\<close>; its first argument is the list of
    all requests sent before, so a service may answer the same request differently
    over time;
  \<^item> \<open>Unmarshal_*\<close>: \<^verbatim>\<open>json.Unmarshal\<close> of a body into the zero value of each of the
    four target types;
  \<^item> \<open>ParseFloat\<close>: \<^verbatim>\<open>strconv.ParseFloat(_, 64)\<close>; \<open>Sprintf_f\<close>:
    \<^verbatim>\<open>fmt.Sprintf("%f", _)\<close>;
  \<^item> \<open>writer_Write\<close>: the error, if any, of \<^verbatim>\<open>csv.Writer.Write\<close> of a record on
    standard output, given the records written before; \<open>writer_Error\<close>: the error of
    \<^verbatim>\<open>Flush\<close> followed by \<^verbatim>\<open>Error\<close>.
\<close>

record world =
  Getenv :: "string \<Rightarrow> string"
  Args :: "string list"
  Open :: "string \<Rightarrow> go_error + csv_line list"
  NewRequest :: "request \<Rightarrow> go_error option"
  client_Do :: "request list \<Rightarrow> request \<Rightarrow> go_error + response"
  Unmarshal_ElectricityMapsResponse :: "string \<Rightarrow> go_error + ElectricityMapsResponse"
  Unmarshal_OpenStreetMapPlaces :: "string \<Rightarrow> go_error + OpenStreetMapPlace list"
  Unmarshal_WattTimeLoginResp :: "string \<Rightarrow> go_error + WattTimeLoginResp"
  Unmarshal_WattTimeRegionResp :: "string \<Rightarrow> go_error + WattTimeRegionResp"
  ParseFloat :: "string \<Rightarrow> go_error + float64"
  Sprintf_f :: "float64 \<Rightarrow> string"
  writer_Write :: "string list list \<Rightarrow> string list \<Rightarrow> go_error option"
  writer_Error :: "string list list \<Rightarrow> go_error option"

text \<open>
  What a run has done so far: the requests handed to \<^verbatim>\<open>client.Do\<close>, in order, and the
  records that \<^verbatim>\<open>csv.Writer.Write\<close> has taken for standard output, in order.
\<close>

record io_state =
  requests :: "request list"
  written :: "string list list"

definition sent :: "request \<Rightarrow> io_state \<Rightarrow> io_state" where
  "sent req s = s\<lparr>requests := requests s @ [req]\<rparr>"

text \<open>The idiom \<^verbatim>\<open>x, err := f(...); if err != nil { return ..., err }\<close>.\<close>

definition and_then ::
  "'a result \<times> io_state \<Rightarrow> ('a \<Rightarrow> io_state \<Rightarrow> 'b result \<times> io_state) \<Rightarrow> 'b result \<times> io_state" where
  "and_then m f =
     (case m of
        (Ok x, s) \<Rightarrow> f x s
      | (Err e, s) \<Rightarrow> (Err e, s)
      | (Panic p, s) \<Rightarrow> (Panic p, s))"

text \<open>\<^verbatim>\<open>%d\<close> of a non-negative integer.\<close>

fun itoa :: "nat \<Rightarrow> string" where
  "itoa n = (if n < 10 then [''0123456789'' ! n] else itoa (n div 10) @ [''0123456789'' ! (n mod 10)])"

declare itoa.simps [simp del]

text \<open>\<^verbatim>\<open>fmt.Errorf("expected %d response got %d", http.StatusOK, resp.StatusCode)\<close>\<close>

definition status_error :: "nat \<Rightarrow> go_error" where
  "status_error code = errorString (''expected '' @ itoa 200 @ '' response got '' @ itoa code)"

section \<open>The HTTP clients\<close>

text \<open>
  In \<^verbatim>\<open>getElectricityMapsZone\<close> the header is added to \<^verbatim>\<open>req\<close> before the error of
  \<^verbatim>\<open>NewRequestWithContext\<close> is looked at: with an error \<^verbatim>\<open>req\<close> is nil and the
  call panics.
\<close>

definition getElectricityMapsZone ::
  "world \<Rightarrow> io_state \<Rightarrow> string \<Rightarrow> float64 \<Rightarrow> float64 \<Rightarrow> string result \<times> io_state" where
  "getElectricityMapsZone w s apiKey latitude longitude =
     (let req = ElectricityMapsGet apiKey (Sprintf_f w latitude) (Sprintf_f w longitude)
      in case NewRequest w req of
           Some e \<Rightarrow> (Panic ''nil pointer dereference'', s)
         | None \<Rightarrow>
             (case client_Do w (requests s) req of
                Inl e \<Rightarrow> (Err e, sent req s)
              | Inr resp \<Rightarrow>
                  if StatusCode resp = 404 then (Ok [], sent req s)
                  else if StatusCode resp \<noteq> 200 then (Err (status_error (StatusCode resp)), sent req s)
                  else (case Body resp of
                          Inl e \<Rightarrow> (Err e, sent req s)
                        | Inr body \<Rightarrow>
                            (case Unmarshal_ElectricityMapsResponse w body of
                               Inl e \<Rightarrow> (Err e, sent req s)
                             | Inr electricityMapsResp \<Rightarrow> (Ok (Zone electricityMapsResp), sent req s)))))"

definition getGeolocation ::
  "world \<Rightarrow> io_state \<Rightarrow> string \<Rightarrow> string \<Rightarrow> (float64 \<times> float64) result \<times> io_state" where
  "getGeolocation w s location locationType =
     (let req = OpenStreetMapGet locationType location
      in case NewRequest w req of
           Some e \<Rightarrow> (Err e, s)
         | None \<Rightarrow>
             (case client_Do w (requests s) req of
                Inl e \<Rightarrow> (Err e, sent req s)
              | Inr resp \<Rightarrow>
                  if StatusCode resp \<noteq> 200 then (Err (status_error (StatusCode resp)), sent req s)
                  else (case Body resp of
                          Inl e \<Rightarrow> (Err e, sent req s)
                        | Inr body \<Rightarrow>
                            (case Unmarshal_OpenStreetMapPlaces w body of
                               Inl e \<Rightarrow> (Err e, sent req s)
                             | Inr places \<Rightarrow>
                                 if length places = 1
                                 then (case ParseFloat w (Lat (places ! 0)) of
                                         Inl e \<Rightarrow> (Err e, sent req s)
                                       | Inr latitude \<Rightarrow>
                                           (case ParseFloat w (Lon (places ! 0)) of
                                              Inl e \<Rightarrow> (Err e, sent req s)
                                            | Inr longitude \<Rightarrow> (Ok (latitude, longitude), sent req s)))
                                 else (Ok (0, 0), sent req s)))))"

definition getWattTimeAccessToken ::
  "world \<Rightarrow> io_state \<Rightarrow> string \<Rightarrow> string \<Rightarrow> string result \<times> io_state" where
  "getWattTimeAccessToken w s apiUser apiPassword =
     (let req = WattTimeLoginGet apiUser apiPassword
      in case NewRequest w req of
           Some e \<Rightarrow> (Err e, s)
         | None \<Rightarrow>
             (case client_Do w (requests s) req of
                Inl e \<Rightarrow> (Err e, sent req s)
              | Inr resp \<Rightarrow>
                  if StatusCode resp \<noteq> 200 then (Err (status_error (StatusCode resp)), sent req s)
                  else (case Body resp of
                          Inl e \<Rightarrow> (Ok [], sent req s)
                        | Inr bytes \<Rightarrow>
                            (case Unmarshal_WattTimeLoginResp w bytes of
                               Inl e \<Rightarrow> (Ok [], sent req s)
                             | Inr loginResp \<Rightarrow> (Ok (Token loginResp), sent req s)))))"

definition getWattTimeRegion ::
  "world \<Rightarrow> io_state \<Rightarrow> string \<Rightarrow> float64 \<Rightarrow> float64 \<Rightarrow> string result \<times> io_state" where
  "getWattTimeRegion w s accessToken latitude longitude =
     (let req = WattTimeRegionGet accessToken (Sprintf_f w latitude) (Sprintf_f w longitude)
      in case NewRequest w req of
           Some e \<Rightarrow> (Err e, s)
         | None \<Rightarrow>
             (case client_Do w (requests s) req of
                Inl e \<Rightarrow> (Err e, sent req s)
              | Inr resp \<Rightarrow>
                  if StatusCode resp = 404 then (Ok [], sent req s)
                  else if StatusCode resp \<noteq> 200 then (Err (status_error (StatusCode resp)), sent req s)
                  else (case Body resp of
                          Inl e \<Rightarrow> (Ok [], sent req s)
                        | Inr bytes \<Rightarrow>
                            (case Unmarshal_WattTimeRegionResp w bytes of
                               Inl e \<Rightarrow> (Ok [], sent req s)
                             | Inr regionResp \<Rightarrow> (Ok (Region regionResp), sent req s)))))"

section \<open>Loading the input file\<close>

text \<open>
  The reader of \<^verbatim>\<open>encoding/csv\<close>: the records not read yet and \<^verbatim>\<open>FieldsPerRecord\<close>,
  which \<^verbatim>\<open>csv.NewReader\<close> leaves at 0.
\<close>

record csv_Reader =
  FieldsPerRecord :: int
  unread :: "csv_line list"

definition csv_NewReader :: "csv_line list \<Rightarrow> csv_Reader" where
  "csv_NewReader ls = \<lparr>FieldsPerRecord = 0, unread = ls\<rparr>"

definition reject_error :: "csv_reject \<Rightarrow> go_error" where
  "reject_error why =
     (case why of
        BareQuote \<Rightarrow> csv_ParseError csv_ErrBareQuote
      | BadQuote \<Rightarrow> csv_ParseError csv_ErrQuote
      | ReadFails m \<Rightarrow> lib_error m)"

text \<open>
  \<^verbatim>\<open>(*csv.Reader).Read\<close>. At the end of the file it returns \<^verbatim>\<open>io.EOF\<close>. Otherwise it
  lexes one record, and then checks or sets the field count: with
  \<^verbatim>\<open>FieldsPerRecord > 0\<close> a record of another length, lexed without error, is returned
  together with \<^verbatim>\<open>&ParseError{..., Err: ErrFieldCount}\<close>; with
  \<^verbatim>\<open>FieldsPerRecord == 0\<close> the length of this record becomes \<^verbatim>\<open>FieldsPerRecord\<close>.
\<close>

definition csv_Read :: "csv_Reader \<Rightarrow> (string list \<times> go_error option) \<times> csv_Reader" where
  "csv_Read r =
     (case unread r of
        [] \<Rightarrow> (([], Some io_EOF), r)
      | l # ls \<Rightarrow>
          (let (dst, err) = (case l of
                               Fields fs \<Rightarrow> (fs, None)
                             | Rejected fs why \<Rightarrow> (fs, Some (reject_error why)))
           in if FieldsPerRecord r > 0
              then (if int (length dst) \<noteq> FieldsPerRecord r \<and> err = None
                    then ((dst, Some (csv_ParseError csv_ErrFieldCount)), r\<lparr>unread := ls\<rparr>)
                    else ((dst, err), r\<lparr>unread := ls\<rparr>))
              else if FieldsPerRecord r = 0
              then ((dst, err), r\<lparr>FieldsPerRecord := int (length dst), unread := ls\<rparr>)
              else ((dst, err), r\<lparr>unread := ls\<rparr>)))"

text \<open>
  Lines 320 to 347 of the loop body: the coordinates of a record, from its own fields
  when \<^verbatim>\<open>record[6] != "" && record[7] != ""\<close> (the second test is not evaluated
  when the first fails), from the geocoder otherwise.
\<close>

definition load_coordinates ::
  "world \<Rightarrow> io_state \<Rightarrow> string list \<Rightarrow> (float64 \<times> float64) result \<times> io_state" where
  "load_coordinates w s record =
     and_then (index record 6, s) (\<lambda>r6 s.
     and_then (if r6 \<noteq> [] then and_then (index record 7, s) (\<lambda>r7 s. (Ok (r7 \<noteq> []), s))
               else (Ok False, s)) (\<lambda>both s.
       if both
       then and_then (index record 6, s) (\<lambda>r6 s.
            case ParseFloat w r6 of
              Inl e \<Rightarrow> (Err e, s)
            | Inr latitude \<Rightarrow>
                and_then (index record 7, s) (\<lambda>r7 s.
                case ParseFloat w r7 of
                  Inl e \<Rightarrow> (Err e, s)
                | Inr longitude \<Rightarrow> (Ok (latitude, longitude), s)))
       else and_then (index record 0, s) (\<lambda>cloudProvider s.
            and_then (index record 2, s) (\<lambda>location s.
            and_then (index record 3, s) (\<lambda>locationOverride s.
            let location = (if locationOverride \<noteq> [] then locationOverride else location)
            in and_then (index record 5, s) (\<lambda>locationType s.
               and_then (if locationOverride = [] \<and> cloudProvider = awsCloudProvider
                         then (parseAWSLocation location, s)
                         else (Ok location, s)) (\<lambda>location s.
               getGeolocation w s location locationType)))))))"

text \<open>The whole loop body once \<^verbatim>\<open>reader.Read\<close> has returned a record without error.\<close>

definition load_region :: "world \<Rightarrow> io_state \<Rightarrow> string list \<Rightarrow> Region result \<times> io_state" where
  "load_region w s record =
     and_then (load_coordinates w s record) (\<lambda>(latitude, longitude) s.
     and_then (index record 0, s) (\<lambda>r0 s.
     and_then (index record 1, s) (\<lambda>r1 s.
     and_then (index record 2, s) (\<lambda>r2 s.
     and_then (index record 3, s) (\<lambda>r3 s.
     and_then (index record 4, s) (\<lambda>r4 s.
     and_then (index record 5, s) (\<lambda>r5 s.
     and_then (index record 8, s) (\<lambda>r8 s.
     and_then (index record 9, s) (\<lambda>r9 s.
       (Ok \<lparr>CloudProvider = r0, CloudRegion = r1, Location = r2, LocationOverride = r3,
            LocationSource = r4, LocationType = r5, Latitude = latitude,
            Longitude = longitude, ElectricityMapsZone = r8, WattTimeRegion = r9\<rparr>, s))))))))))"

text \<open>
  The \<^verbatim>\<open>for\<close> loop of \<^verbatim>\<open>loadRegions\<close>. On an error of \<^verbatim>\<open>reader.Read\<close> it compares
  the error with the sentinel, \<^verbatim>\<open>err == csv.ErrFieldCount\<close>, to \<^verbatim>\<open>continue\<close>, and
  leaves the loop on any other error (also \<^verbatim>\<open>io.EOF\<close>), returning the regions loaded
  so far with a nil error.
\<close>

function load_loop ::
  "world \<Rightarrow> io_state \<Rightarrow> csv_Reader \<Rightarrow> Region list \<Rightarrow> Region list result \<times> io_state" where
  "load_loop w s reader regions =
     (case csv_Read reader of
        ((record, Some err), reader') \<Rightarrow>
          if err = csv_ErrFieldCount then load_loop w s reader' regions
          else (Ok regions, s)
      | ((record, None), reader') \<Rightarrow>
          (case load_region w s record of
             (Ok region, s') \<Rightarrow> load_loop w s' reader' (regions @ [region])
           | (Err e, s') \<Rightarrow> (Err e, s')
           | (Panic p, s') \<Rightarrow> (Panic p, s')))"
  by pat_completeness auto
termination
  by (relation "measure (\<lambda>(w, s, reader, regions). length (unread reader))")
     (auto simp: csv_Read_def Let_def reject_error_def
           split: list.splits csv_line.splits csv_reject.splits if_splits)

declare load_loop.simps [simp del]

definition loadRegions :: "world \<Rightarrow> io_state \<Rightarrow> string \<Rightarrow> Region list result \<times> io_state" where
  "loadRegions w s fileName =
     (case Open w fileName of
        Inl e \<Rightarrow> (Err e, s)
      | Inr file \<Rightarrow>
          (case csv_Read (csv_NewReader file) of
             ((hd_record, Some err), reader) \<Rightarrow> (Err err, s)
           | ((hd_record, None), reader) \<Rightarrow> load_loop w s reader []))"

section \<open>The driver\<close>

text \<open>
  The body of the enrichment loop (lines 75 to 89). The pause of one second after each
  row is not modelled.
\<close>

definition enrich_region ::
  "world \<Rightarrow> string \<Rightarrow> string \<Rightarrow> io_state \<Rightarrow> Region \<Rightarrow> Region result \<times> io_state" where
  "enrich_region w electricityMapsAPIKey wattTimeAccessToken s region =
     and_then (if ElectricityMapsZone region = []
               then and_then (getElectricityMapsZone w s electricityMapsAPIKey
                                (Latitude region) (Longitude region))
                      (\<lambda>zone s. (Ok (region\<lparr>ElectricityMapsZone := zone\<rparr>), s))
               else (Ok region, s)) (\<lambda>region s.
     if WattTimeRegion region = []
     then and_then (getWattTimeRegion w s wattTimeAccessToken
                      (Latitude region) (Longitude region))
            (\<lambda>regionID s. (Ok (region\<lparr>WattTimeRegion := regionID\<rparr>), s))
     else (Ok region, s))"

text \<open>
  \<^verbatim>\<open>for i, region := range regions { ...; regions[i] = region }\<close>: the rows in order,
  each replaced by its enriched copy; the first error ends the loop and the function.
\<close>

fun enrich_regions ::
  "world \<Rightarrow> string \<Rightarrow> string \<Rightarrow> io_state \<Rightarrow> Region list \<Rightarrow> Region list result \<times> io_state" where
  "enrich_regions w electricityMapsAPIKey wattTimeAccessToken s [] = (Ok [], s)"
| "enrich_regions w electricityMapsAPIKey wattTimeAccessToken s (region # rest) =
     and_then (enrich_region w electricityMapsAPIKey wattTimeAccessToken s region) (\<lambda>region s.
     and_then (enrich_regions w electricityMapsAPIKey wattTimeAccessToken s rest) (\<lambda>rest s.
       (Ok (region # rest), s)))"

text \<open>The record written for a region (lines 102 to 113).\<close>

definition region_record :: "world \<Rightarrow> Region \<Rightarrow> string list" where
  "region_record w region =
     [CloudProvider region, CloudRegion region, Location region, LocationOverride region,
      LocationSource region, LocationType region,
      Sprintf_f w (Latitude region), Sprintf_f w (Longitude region),
      ElectricityMapsZone region, WattTimeRegion region]"

definition csv_Write :: "world \<Rightarrow> io_state \<Rightarrow> string list \<Rightarrow> unit result \<times> io_state" where
  "csv_Write w s record =
     (case writer_Write w (written s) record of
        Some e \<Rightarrow> (Err e, s)
      | None \<Rightarrow> (Ok (), s\<lparr>written := written s @ [record]\<rparr>))"

fun write_regions :: "world \<Rightarrow> io_state \<Rightarrow> Region list \<Rightarrow> unit result \<times> io_state" where
  "write_regions w s [] = (Ok (), s)"
| "write_regions w s (region # rest) =
     and_then (csv_Write w s (region_record w region)) (\<lambda>_ s. write_regions w s rest)"

definition mainWithError :: "world \<Rightarrow> unit result \<times> io_state" where
  "mainWithError w =
     (let s = \<lparr>requests = [], written = []\<rparr>;
          electricityMapsAPIKey = Getenv w electricityMapsAPIKeyEnvVar
      in if electricityMapsAPIKey = []
         then (Err (errorString (electricityMapsAPIKey @ '' env var must be set'')), s)
         else
      let wattTimeUser = Getenv w wattTimeUserEnvVar
      in if wattTimeUser = []
         then (Err (errorString (wattTimeUserEnvVar @ '' env var must be set'')), s)
         else
      let wattTimePassword = Getenv w wattTimePasswordEnvVar
      in if wattTimePassword = []
         then (Err (errorString (wattTimePasswordEnvVar @ '' env var must be set'')), s)
         else
      and_then (getWattTimeAccessToken w s wattTimeUser wattTimePassword) (\<lambda>wattTimeAccessToken s.
      and_then (index (Args w) 1, s) (\<lambda>fileName s.
      and_then (loadRegions w s fileName) (\<lambda>regions s.
      and_then (enrich_regions w electricityMapsAPIKey wattTimeAccessToken s regions) (\<lambda>regions s.
      and_then (csv_Write w s header) (\<lambda>_ s.
      and_then (write_regions w s regions) (\<lambda>_ s.
        case writer_Error w (written s) of
          Some e \<Rightarrow> (Err e, s)
        | None \<Rightarrow> (Ok (), s))))))))"

section \<open>Observations on a run\<close>

text \<open>The kinds of request.\<close>

definition is_zone_lookup :: "request \<Rightarrow> bool" where
  "is_zone_lookup req = (case req of ElectricityMapsGet apiKey lat lon \<Rightarrow> True | _ \<Rightarrow> False)"

definition is_region_lookup :: "request \<Rightarrow> bool" where
  "is_region_lookup req = (case req of WattTimeRegionGet token lat lon \<Rightarrow> True | _ \<Rightarrow> False)"

definition is_geocoding :: "request \<Rightarrow> bool" where
  "is_geocoding req = (case req of OpenStreetMapGet locationType location \<Rightarrow> True | _ \<Rightarrow> False)"

text \<open>A zone or region lookup, as opposed to the login and the geocoding.\<close>

definition is_lookup :: "request \<Rightarrow> bool" where
  "is_lookup req = (is_zone_lookup req \<or> is_region_lookup req)"

text \<open>The requests sent between the states \<open>s\<close> and \<open>s'\<close> of one run.\<close>

definition new_requests :: "io_state \<Rightarrow> io_state \<Rightarrow> request list" where
  "new_requests s s' = drop (length (requests s)) (requests s')"

text \<open>The state in which a run starts.\<close>

definition start :: io_state where
  "start = \<lparr>requests = [], written = []\<rparr>"

text \<open>The call returned a non-nil error (it did not panic).\<close>

definition is_Err :: "'a result \<Rightarrow> bool" where
  "is_Err r = (case r of Err e \<Rightarrow> True | _ \<Rightarrow> False)"

text \<open>
  Reading the body fails, or \<^verbatim>\<open>json.Unmarshal\<close> of the bytes read fails.
\<close>

definition decode_fails :: "go_error + string \<Rightarrow> (string \<Rightarrow> go_error + 'a) \<Rightarrow> bool" where
  "decode_fails body unmarshal =
     (case body of
        Inl e \<Rightarrow> True
      | Inr bytes \<Rightarrow> (case unmarshal bytes of Inl e \<Rightarrow> True | Inr v \<Rightarrow> False))"

text \<open>
  The request \<open>req\<close>, sent after the requests \<open>before\<close>, is answered with a status
  that is neither 200 nor 404.
\<close>

definition bad_status :: "world \<Rightarrow> request list \<Rightarrow> request \<Rightarrow> bool" where
  "bad_status w before req =
     (case client_Do w before req of
        Inl e \<Rightarrow> False
      | Inr resp \<Rightarrow> StatusCode resp \<noteq> 200 \<and> StatusCode resp \<noteq> 404)"

text \<open>
  Some lookup among the requests \<open>reqs\<close> of a run was answered, at the time it was sent,
  with a status that is neither 200 nor 404.
\<close>

definition lookup_failed :: "world \<Rightarrow> request list \<Rightarrow> bool" where
  "lookup_failed w reqs =
     list_ex (\<lambda>i. is_lookup (reqs ! i) \<and> bad_status w (take i reqs) (reqs ! i)) [0..<length reqs]"

text \<open>
  From \<open>s\<close> to \<open>s'\<close> nothing was written and no lookup was sent: \<open>s'\<close> has the
  requests of \<open>s\<close> followed by requests that are not lookups.
\<close>

definition quiet :: "io_state \<Rightarrow> io_state \<Rightarrow> bool" where
  "quiet s s' =
     (written s' = written s \<and> prefix (requests s) (requests s')
      \<and> filter is_lookup (new_requests s s') = [])"

text \<open>
  The call \<open>m\<close>, started in \<open>s\<close>, wrote nothing, and if a lookup has failed by its end,
  one had failed before it started or the call returned an error.
\<close>

definition guarded :: "world \<Rightarrow> io_state \<Rightarrow> 'a result \<times> io_state \<Rightarrow> bool" where
  "guarded w s m =
     (written (snd m) = written s
      \<and> (lookup_failed w (requests (snd m)) \<longrightarrow> lookup_failed w (requests s) \<or> is_Err (fst m)))"

text \<open>Both lookup fields of a region are filled in.\<close>

definition populated_region :: "Region \<Rightarrow> bool" where
  "populated_region region = (ElectricityMapsZone region \<noteq> [] \<and> WattTimeRegion region \<noteq> [])"

text \<open>
  A record of the input file that has fields 8 and 9 (zone and region) has both filled in.
\<close>

definition populated_line :: "csv_line \<Rightarrow> bool" where
  "populated_line l =
     (case l of
        Fields fs \<Rightarrow> 10 \<le> length fs \<longrightarrow> fs ! 8 \<noteq> [] \<and> fs ! 9 \<noteq> []
      | Rejected fs why \<Rightarrow> True)"

text \<open>
  The records of the file named by \<^verbatim>\<open>os.Args[1]\<close> (none when the argument is missing
  or the file cannot be opened).
\<close>

definition input_file :: "world \<Rightarrow> csv_line list" where
  "input_file w =
     (case index (Args w) 1 of
        Ok fileName \<Rightarrow> (case Open w fileName of Inr file \<Rightarrow> file | Inl e \<Rightarrow> [])
      | _ \<Rightarrow> [])"

text \<open>The call returned a result and a nil error.\<close>

definition is_Ok :: "'a result \<Rightarrow> bool" where
  "is_Ok r = (case r of Ok x \<Rightarrow> True | _ \<Rightarrow> False)"

text \<open>
  The lookups of the loop body for one region (lines 76 to 88), in the order of the
  source: the zone lookup when \<^verbatim>\<open>region.ElectricityMapsZone == ""\<close>, then the region
  lookup when \<^verbatim>\<open>region.WattTimeRegion == ""\<close>, both at the coordinates of the region.
\<close>

definition lookups_for :: "world \<Rightarrow> string \<Rightarrow> string \<Rightarrow> Region \<Rightarrow> request list" where
  "lookups_for w k t region =
     (if ElectricityMapsZone region = []
      then [ElectricityMapsGet k (Sprintf_f w (Latitude region)) (Sprintf_f w (Longitude region))]
      else [])
     @ (if WattTimeRegion region = []
        then [WattTimeRegionGet t (Sprintf_f w (Latitude region)) (Sprintf_f w (Longitude region))]
        else [])"

text \<open>Each of the two lookup fields that is set in \<open>region\<close> has the same value in \<open>region'\<close>.\<close>

definition kept_fields :: "Region \<Rightarrow> Region \<Rightarrow> bool" where
  "kept_fields region region' =
     ((ElectricityMapsZone region \<noteq> [] \<longrightarrow> ElectricityMapsZone region' = ElectricityMapsZone region)
      \<and> (WattTimeRegion region \<noteq> [] \<longrightarrow> WattTimeRegion region' = WattTimeRegion region))"

text \<open>
  The call \<open>m\<close>, started in \<open>s\<close>, wrote nothing and sent the requests \<open>expected\<close>, in
  that order, up to the point where it returned: all of them if it returned without an
  error, a prefix of them otherwise.
\<close>

definition sends :: "io_state \<Rightarrow> 'a result \<times> io_state \<Rightarrow> request list \<Rightarrow> bool" where
  "sends s m expected =
     (written (snd m) = written s
      \<and> requests (snd m) = requests s @ new_requests s (snd m)
      \<and> prefix (new_requests s (snd m)) expected
      \<and> (is_Ok (fst m) \<longrightarrow> new_requests s (snd m) = expected))"





section \<open>Concrete worlds\<close>

text \<open>
  A world in which every service answers and the input file has one row without
  coordinates: the geocoder returns one candidate, the zone service \<open>US-VA\<close>, the region
  service \<open>PJM_DC\<close>. The two strings \<open>37.5\<close> and \<open>-78.6\<close> parse to the bits of the nearest
  \<^verbatim>\<open>float64\<close>. The library functions are given on the strings and numbers that occur.
\<close>

definition stub_world :: world where
  "stub_world =
     \<lparr>Getenv = (\<lambda>name. if name = electricityMapsAPIKeyEnvVar then ''em-key''
                       else if name = wattTimeUserEnvVar then ''wt-user''
                       else if name = wattTimePasswordEnvVar then ''wt-password''
                       else []),
      Args = [''main'', ''regions.csv''],
      Open = (\<lambda>name.
         if name = ''regions.csv''
         then Inr [Fields header,
                   Fields [''Amazon Web Services'', ''us-east-1'', ''US East (N. Virginia)'',
                           [], ''manual'', ''city'', [], [], [], []]]
         else Inl (lib_error ''open: no such file or directory'')),
      NewRequest = (\<lambda>req. None),
      client_Do = (\<lambda>before req.
         case req of
           ElectricityMapsGet apiKey lat lon \<Rightarrow>
             Inr \<lparr>StatusCode = 200, Body = Inr ''{zone: US-VA}''\<rparr>
         | OpenStreetMapGet locationType location \<Rightarrow>
             Inr \<lparr>StatusCode = 200, Body = Inr ''[{lat: 37.5, lon: -78.6}]''\<rparr>
         | WattTimeLoginGet user password \<Rightarrow>
             Inr \<lparr>StatusCode = 200, Body = Inr ''{token: t0}''\<rparr>
         | WattTimeRegionGet token lat lon \<Rightarrow>
             Inr \<lparr>StatusCode = 200, Body = Inr ''{region: PJM_DC}''\<rparr>),
      Unmarshal_ElectricityMapsResponse = (\<lambda>body.
         if body = ''{zone: US-VA}'' then Inr \<lparr>Zone = ''US-VA''\<rparr>
         else Inl (lib_error ''json: syntax error'')),
      Unmarshal_OpenStreetMapPlaces = (\<lambda>body.
         if body = ''[{lat: 37.5, lon: -78.6}]'' then Inr [\<lparr>Lat = ''37.5'', Lon = ''-78.6''\<rparr>]
         else if body = ''[{lat: 1, lon: 2}, {lat: 3, lon: 4}]''
         then Inr [\<lparr>Lat = ''1'', Lon = ''2''\<rparr>, \<lparr>Lat = ''3'', Lon = ''4''\<rparr>]
         else if body = ''[]'' then Inr []
         else Inl (lib_error ''json: syntax error'')),
      Unmarshal_WattTimeLoginResp = (\<lambda>body.
         if body = ''{token: t0}'' then Inr \<lparr>Token = ''t0''\<rparr>
         else Inl (lib_error ''json: syntax error'')),
      Unmarshal_WattTimeRegionResp = (\<lambda>body.
         if body = ''{region: PJM_DC}'' then Inr \<lparr>Region = ''PJM_DC''\<rparr>
         else Inl (lib_error ''json: syntax error'')),
      ParseFloat = (\<lambda>text.
         if text = ''0.000000'' then Inr 0
         else if text = ''37.5'' \<or> text = ''37.500000'' then Inr 0x4042C00000000000
         else if text = ''-78.6'' \<or> text = ''-78.600000'' then Inr 0xC053A66666666666
         else Inl (lib_error ''strconv.ParseFloat: invalid syntax'')),
      Sprintf_f = (\<lambda>x.
         if x = 0 then ''0.000000''
         else if x = 0x4042C00000000000 then ''37.500000''
         else if x = 0xC053A66666666666 then ''-78.600000''
         else ''NaN''),
      writer_Write = (\<lambda>before record. None),
      writer_Error = (\<lambda>records. None)\<rparr>"

text \<open>A fully populated data row, and the region it loads into.\<close>

definition full_row :: "string list" where
  "full_row =
     [''Amazon Web Services'', ''us-east-1'', ''US East (N. Virginia)'', [], ''manual'',
      ''city'', ''37.500000'', ''-78.600000'', ''US-VA'', ''PJM_DC'']"

definition full_region :: Region where
  "full_region =
     \<lparr>CloudProvider = ''Amazon Web Services'', CloudRegion = ''us-east-1'',
      Location = ''US East (N. Virginia)'', LocationOverride = [],
      LocationSource = ''manual'', LocationType = ''city'',
      Latitude = 0x4042C00000000000, Longitude = 0xC053A66666666666,
      ElectricityMapsZone = ''US-VA'', WattTimeRegion = ''PJM_DC''\<rparr>"

text \<open>
  The input file of \<open>short_row_world\<close>: the header, a row of nine fields, then a row of ten
  fields.
\<close>

definition short_row_world :: world where
  "short_row_world =
     stub_world\<lparr>Open := (\<lambda>name.
       Inr [Fields header,
            Fields [''Google Cloud'', ''europe-west3'', ''Frankfurt'', [], ''manual'', ''city'',
                    [], [], []],
            Fields full_row])\<rparr>"

text \<open>\<open>no_key_world\<close>: only \<^verbatim>\<open>ELECTRICITY_MAPS_API_KEY\<close> is unset.\<close>

definition no_key_world :: world where
  "no_key_world =
     stub_world\<lparr>Getenv := (\<lambda>name. if name = wattTimeUserEnvVar then ''wt-user''
                                     else if name = wattTimePasswordEnvVar then ''wt-password''
                                     else [])\<rparr>"

text \<open>\<open>two_candidates_world\<close>: every request is answered with two geocoder candidates.\<close>

definition two_candidates_world :: world where
  "two_candidates_world =
     stub_world\<lparr>client_Do := (\<lambda>before req.
       Inr \<lparr>StatusCode = 200, Body = Inr ''[{lat: 1, lon: 2}, {lat: 3, lon: 4}]''\<rparr>)\<rparr>"

text \<open>
  \<open>broken_body_world\<close>: the body of the login response cannot be read, and every other
  body is not JSON.
\<close>

definition broken_body_world :: world where
  "broken_body_world =
     stub_world\<lparr>client_Do := (\<lambda>before req.
       case req of
         WattTimeLoginGet user password \<Rightarrow>
           Inr \<lparr>StatusCode = 200, Body = Inl (lib_error ''unexpected EOF'')\<rparr>
       | _ \<Rightarrow> Inr \<lparr>StatusCode = 200, Body = Inr ''<html>''\<rparr>)\<rparr>"

text \<open>\<open>server_error_world\<close>: every lookup is answered with status 500.\<close>

definition server_error_world :: world where
  "server_error_world =
     stub_world\<lparr>client_Do := (\<lambda>before req.
       if is_lookup req then Inr \<lparr>StatusCode = 500, Body = Inr ''Internal Server Error''\<rparr>
       else client_Do stub_world before req)\<rparr>"

text \<open>
  \<open>not_found_world\<close>: every lookup is answered with status 404, and the geocoder finds
  no candidate.
\<close>

definition not_found_world :: world where
  "not_found_world =
     stub_world\<lparr>client_Do := (\<lambda>before req.
       if is_lookup req then Inr \<lparr>StatusCode = 404, Body = Inr ''Not Found''\<rparr>
       else if is_geocoding req then Inr \<lparr>StatusCode = 200, Body = Inr ''[]''\<rparr>
       else client_Do stub_world before req)\<rparr>"

text \<open>\<open>populated_world\<close>: the input file is the header and one fully populated row.\<close>

definition populated_world :: world where
  "populated_world = stub_world\<lparr>Open := (\<lambda>name. Inr [Fields header, Fields full_row])\<rparr>"

text \<open>A region with unresolved coordinates and both lookup fields empty.\<close>

definition blank_region :: Region where
  "blank_region =
     \<lparr>CloudProvider = ''Amazon Web Services'', CloudRegion = ''us-east-1'',
      Location = ''US East (N. Virginia)'', LocationOverride = [],
      LocationSource = ''manual'', LocationType = ''city'',
      Latitude = 0, Longitude = 0, ElectricityMapsZone = [], WattTimeRegion = []\<rparr>"

text \<open>Rows whose latitude, or longitude, is not a number.\<close>

definition bad_latitude_row :: "string list" where
  "bad_latitude_row = full_row[6 := ''north'']"

definition bad_longitude_row :: "string list" where
  "bad_longitude_row = full_row[7 := ''west'']"

text \<open>\<open>bad_latitude_world\<close>: the input file is the header and \<open>bad_latitude_row\<close>.\<close>

definition bad_latitude_world :: world where
  "bad_latitude_world =
     stub_world\<lparr>Open := (\<lambda>name. Inr [Fields header, Fields bad_latitude_row])\<rparr>"



text \<open>
  \<open>mixed_world\<close>: the input file has a row with no coordinates and no lookup field, then
  a fully populated row.
\<close>

definition mixed_world :: world where
  "mixed_world =
     stub_world\<lparr>Open := (\<lambda>name.
       Inr [Fields header,
            Fields [''Amazon Web Services'', ''us-east-1'', ''US East (N. Virginia)'',
                    [], ''manual'', ''city'', [], [], [], []],
            Fields full_row])\<rparr>"

text \<open>
  \<open>zone_not_found_world\<close>: only the zone lookups are answered with status 404;
  \<open>region_not_found_world\<close>: only the region lookups are.
\<close>

definition zone_not_found_world :: world where
  "zone_not_found_world =
     stub_world\<lparr>client_Do := (\<lambda>before req.
       if is_zone_lookup req then Inr \<lparr>StatusCode = 404, Body = Inr ''Not Found''\<rparr>
       else client_Do stub_world before req)\<rparr>"

definition region_not_found_world :: world where
  "region_not_found_world =
     stub_world\<lparr>client_Do := (\<lambda>before req.
       if is_region_lookup req then Inr \<lparr>StatusCode = 404, Body = Inr ''Not Found''\<rparr>
       else client_Do stub_world before req)\<rparr>"

text \<open>
  A row whose latitude is the text \<open>NaN\<close>, and a world with that row as input in which
  \<^verbatim>\<open>strconv.ParseFloat\<close> accepts \<open>NaN\<close>, as the library does, and returns the bits of
  \<^verbatim>\<open>math.NaN()\<close>.
\<close>

definition nan_row :: "string list" where
  "nan_row = full_row[6 := ''NaN'']"

definition nan_world :: world where
  "nan_world =
     stub_world\<lparr>Open := (\<lambda>name. Inr [Fields header, Fields nan_row]),
                ParseFloat := (\<lambda>text. if text = ''NaN'' then Inr 0x7FF8000000000001
                                       else ParseFloat stub_world text)\<rparr>"




section \<open>parseAWSLocation (C1)\<close>

lemma split_from_without_sep: "c \<notin> set s \<Longrightarrow> split_from [c] cur s = [cur @ s]"
  by (induction s arbitrary: cur) auto

text \<open>
  An input without \<open>(\<close> splits into one piece, the guard \<^verbatim>\<open>len(split) > 0\<close> holds, and
  \<^verbatim>\<open>split[1]\<close> is out of range: every such input panics.
\<close>

lemma parseAWSLocation_without_paren:
  "CHR ''('' \<notin> set input \<Longrightarrow> parseAWSLocation input = Panic ''index out of range''"
  by (simp add: parseAWSLocation_def strings_Split_def index_def split_from_without_sep)

text \<open>
  C1. The claim: for every input without \<open>(\<close> the function returns a defined result
  instead of failing with an index out of range, and \<open>US East (N. Virginia)\<close> gives
  \<open>N. Virginia\<close>. The second half holds; the first does not: on \<open>Frankfurt\<close>, and on
  the empty string, the call panics with an index out of range.
\<close>

theorem parseAWSLocation_panics_on_Frankfurt:
  "parseAWSLocation ''Frankfurt'' = Panic ''index out of range''
   \<and> parseAWSLocation [] = Panic ''index out of range''
   \<and> parseAWSLocation ''US East (N. Virginia)'' = Ok ''N. Virginia''"
  by (simp add: parseAWSLocation_def strings_Split_def index_def strings_HasSuffix_def suffix_def)

section \<open>Rows of the wrong length (C2)\<close>

text \<open>\<^verbatim>\<open>Read\<close> never returns the bare sentinel: it wraps it in a \<^verbatim>\<open>ParseError\<close>.\<close>

lemma csv_Read_never_sentinel: "csv_Read reader \<noteq> ((record, Some csv_ErrFieldCount), reader')"
  by (auto simp: csv_Read_def Let_def reject_error_def
           split: list.splits csv_line.splits csv_reject.splits if_splits)

text \<open>So the loop leaves at any error of \<^verbatim>\<open>Read\<close>, a wrong field count included.\<close>

lemma load_loop_leaves_on_error:
  assumes "csv_Read reader = ((record, Some err), reader')"
  shows "load_loop w s reader regions = (Ok regions, s)"
proof -
  have "err \<noteq> csv_ErrFieldCount"
  proof
    assume "err = csv_ErrFieldCount"
    with assms have "csv_Read reader = ((record, Some csv_ErrFieldCount), reader')"
      by simp
    then show False
      by (simp add: csv_Read_never_sentinel)
  qed
  with assms show ?thesis
    by (simp add: load_loop.simps)
qed

lemma load_loop_leaves_at_wrong_length:
  assumes "unread reader = Fields fs # rest"
    and "FieldsPerRecord reader > 0"
    and "int (length fs) \<noteq> FieldsPerRecord reader"
  shows "load_loop w s reader regions = (Ok regions, s)"
proof -
  have "csv_Read reader = ((fs, Some (csv_ParseError csv_ErrFieldCount)), reader\<lparr>unread := rest\<rparr>)"
    using assms by (simp add: csv_Read_def)
  then show ?thesis
    by (rule load_loop_leaves_on_error)
qed

text \<open>
  C2. The claim: a data row whose field count differs from 10 is skipped and the
  well-formed rows after it are still loaded. In \<open>short_row_world\<close> the file has a header
  of ten fields, a row of nine fields and a well-formed row. \<^verbatim>\<open>loadRegions\<close> returns no
  region at all, and the run writes the header only: loading ends at the short row.
\<close>

theorem loadRegions_ends_at_short_row:
  "loadRegions short_row_world start ''regions.csv'' = (Ok [], start)
   \<and> written (snd (mainWithError short_row_world)) = [header]"
  by code_simp

section \<open>Missing environment variables (C8)\<close>

lemma mainWithError_without_key:
  assumes "Getenv w electricityMapsAPIKeyEnvVar = []"
  shows "mainWithError w = (Err (errorString '' env var must be set''), start)"
  using assms by (simp add: mainWithError_def start_def)

lemma mainWithError_without_user:
  assumes "Getenv w electricityMapsAPIKeyEnvVar \<noteq> []" and "Getenv w wattTimeUserEnvVar = []"
  shows "mainWithError w = (Err (errorString ''WATT_TIME_USER env var must be set''), start)"
  using assms by (simp add: mainWithError_def start_def wattTimeUserEnvVar_def)

lemma mainWithError_without_password:
  assumes "Getenv w electricityMapsAPIKeyEnvVar \<noteq> []" and "Getenv w wattTimeUserEnvVar \<noteq> []"
    and "Getenv w wattTimePasswordEnvVar = []"
  shows "mainWithError w = (Err (errorString ''WATT_TIME_PASSWORD env var must be set''), start)"
  using assms by (simp add: mainWithError_def start_def wattTimePasswordEnvVar_def)

text \<open>
  C8. The claim: when one of the three environment variables is absent, the run fails
  before any I/O with a message that names the missing variable. For the user and the
  password it does (the two lemmas above). In \<open>no_key_world\<close>, where only
  \<^verbatim>\<open>ELECTRICITY_MAPS_API_KEY\<close> is unset, the run fails before any request or output, but
  the message is built from the value of the variable, which is empty, and names nothing.
\<close>

theorem mainWithError_no_key_message:
  "mainWithError no_key_world = (Err (errorString '' env var must be set''), start)"
  by (simp add: mainWithError_def start_def no_key_world_def stub_world_def
        electricityMapsAPIKeyEnvVar_def wattTimeUserEnvVar_def wattTimePasswordEnvVar_def)

section \<open>Geocoder answers without exactly one candidate (C6)\<close>

text \<open>
  C6. When the geocoder answers with status 200 and a body that decodes into a list of
  no candidate, or of more than one, \<^verbatim>\<open>getGeolocation\<close> returns the coordinates
  \<open>(0, 0)\<close> and a nil error, having sent its one request.
\<close>

theorem getGeolocation_unresolved:
  assumes "NewRequest w (OpenStreetMapGet locationType location) = None"
    and "client_Do w (requests s) (OpenStreetMapGet locationType location) = Inr resp"
    and "StatusCode resp = 200"
    and "Body resp = Inr body"
    and "Unmarshal_OpenStreetMapPlaces w body = Inr places"
    and "length places = 0 \<or> length places > 1"
  shows "getGeolocation w s location locationType
           = (Ok (0, 0), sent (OpenStreetMapGet locationType location) s)"
  using assms by (auto simp: getGeolocation_def)

theorem getGeolocation_unresolved_witness:
  "length [\<lparr>Lat = ''1'', Lon = ''2''\<rparr>, \<lparr>Lat = ''3'', Lon = ''4''\<rparr>] > 1
   \<and> getGeolocation two_candidates_world start ''Springfield'' ''city''
       = (Ok (0, 0), sent (OpenStreetMapGet ''city'' ''Springfield'') start)"
  using getGeolocation_unresolved
          [of two_candidates_world "''city''" "''Springfield''" start
              "\<lparr>StatusCode = 200, Body = Inr ''[{lat: 1, lon: 2}, {lat: 3, lon: 4}]''\<rparr>"
              "''[{lat: 1, lon: 2}, {lat: 3, lon: 4}]''"
              "[\<lparr>Lat = ''1'', Lon = ''2''\<rparr>, \<lparr>Lat = ''3'', Lon = ''4''\<rparr>]"]
  by (simp add: two_candidates_world_def stub_world_def)

section \<open>Undecodable WattTime responses (C10)\<close>

lemma login_decode_failure:
  assumes "NewRequest w (WattTimeLoginGet apiUser apiPassword) = None"
    and "client_Do w (requests s) (WattTimeLoginGet apiUser apiPassword) = Inr resp"
    and "StatusCode resp = 200"
    and "decode_fails (Body resp) (Unmarshal_WattTimeLoginResp w)"
  shows "getWattTimeAccessToken w s apiUser apiPassword
           = (Ok [], sent (WattTimeLoginGet apiUser apiPassword) s)"
  using assms
  by (auto simp: getWattTimeAccessToken_def decode_fails_def split: sum.splits)

lemma region_decode_failure:
  assumes "NewRequest w (WattTimeRegionGet token (Sprintf_f w lat) (Sprintf_f w lon)) = None"
    and "client_Do w (requests s) (WattTimeRegionGet token (Sprintf_f w lat) (Sprintf_f w lon))
           = Inr resp"
    and "StatusCode resp = 200"
    and "decode_fails (Body resp) (Unmarshal_WattTimeRegionResp w)"
  shows "getWattTimeRegion w s token lat lon
           = (Ok [], sent (WattTimeRegionGet token (Sprintf_f w lat) (Sprintf_f w lon)) s)"
  using assms
  by (auto simp: getWattTimeRegion_def decode_fails_def split: sum.splits)

text \<open>
  C10. In both WattTime calls (the login and the region lookup), when the response has
  status 200 and reading its body fails or the bytes do not unmarshal, the function
  returns the empty string with a nil error.
\<close>

theorem wattTime_decode_failure_returns_nil:
  "(NewRequest w (WattTimeLoginGet apiUser apiPassword) = None
      \<and> client_Do w (requests s) (WattTimeLoginGet apiUser apiPassword) = Inr resp
      \<and> StatusCode resp = 200
      \<and> decode_fails (Body resp) (Unmarshal_WattTimeLoginResp w)
    \<longrightarrow> getWattTimeAccessToken w s apiUser apiPassword
          = (Ok [], sent (WattTimeLoginGet apiUser apiPassword) s))
   \<and> (NewRequest w (WattTimeRegionGet token (Sprintf_f w lat) (Sprintf_f w lon)) = None
      \<and> client_Do w (requests s) (WattTimeRegionGet token (Sprintf_f w lat) (Sprintf_f w lon))
          = Inr resp'
      \<and> StatusCode resp' = 200
      \<and> decode_fails (Body resp') (Unmarshal_WattTimeRegionResp w)
    \<longrightarrow> getWattTimeRegion w s token lat lon
          = (Ok [], sent (WattTimeRegionGet token (Sprintf_f w lat) (Sprintf_f w lon)) s))"
proof (intro conjI impI)
  show "getWattTimeAccessToken w s apiUser apiPassword
          = (Ok [], sent (WattTimeLoginGet apiUser apiPassword) s)"
    if "NewRequest w (WattTimeLoginGet apiUser apiPassword) = None
        \<and> client_Do w (requests s) (WattTimeLoginGet apiUser apiPassword) = Inr resp
        \<and> StatusCode resp = 200
        \<and> decode_fails (Body resp) (Unmarshal_WattTimeLoginResp w)"
    using that by (simp add: login_decode_failure)
  show "getWattTimeRegion w s token lat lon
          = (Ok [], sent (WattTimeRegionGet token (Sprintf_f w lat) (Sprintf_f w lon)) s)"
    if "NewRequest w (WattTimeRegionGet token (Sprintf_f w lat) (Sprintf_f w lon)) = None
        \<and> client_Do w (requests s) (WattTimeRegionGet token (Sprintf_f w lat) (Sprintf_f w lon))
            = Inr resp'
        \<and> StatusCode resp' = 200
        \<and> decode_fails (Body resp') (Unmarshal_WattTimeRegionResp w)"
    using that by (simp add: region_decode_failure)
qed

theorem wattTime_decode_failure_witness:
  "decode_fails (Inl (lib_error ''unexpected EOF'')) (Unmarshal_WattTimeLoginResp broken_body_world)
   \<and> decode_fails (Inr ''<html>'') (Unmarshal_WattTimeRegionResp broken_body_world)
   \<and> getWattTimeAccessToken broken_body_world start ''wt-user'' ''wt-password''
       = (Ok [], sent (WattTimeLoginGet ''wt-user'' ''wt-password'') start)
   \<and> getWattTimeRegion broken_body_world start ''t0'' 0 0
       = (Ok [], sent (WattTimeRegionGet ''t0'' ''0.000000'' ''0.000000'') start)"
  using wattTime_decode_failure_returns_nil
          [of broken_body_world "''wt-user''" "''wt-password''" start
              "\<lparr>StatusCode = 200, Body = Inl (lib_error ''unexpected EOF'')\<rparr>"
              "''t0''" 0 0
              "\<lparr>StatusCode = 200, Body = Inr ''<html>''\<rparr>"]
  by (simp add: broken_body_world_def stub_world_def decode_fails_def)

section \<open>Steps that send no lookup\<close>


lemma lookup_failed_snoc:
  "lookup_failed w (reqs @ [r]) = (lookup_failed w reqs \<or> (is_lookup r \<and> bad_status w reqs r))"
  by (auto simp: lookup_failed_def list_ex_iff nth_append less_Suc_eq)

lemma lookup_failed_append:
  "filter is_lookup new = [] \<Longrightarrow> lookup_failed w (reqs @ new) = lookup_failed w reqs"
proof (induction new rule: rev_induct)
  case Nil
  then show ?case by simp
next
  case (snoc r new)
  then have "\<not> is_lookup r" and "filter is_lookup new = []"
    by (auto split: if_splits)
  with snoc.IH show ?case
    using lookup_failed_snoc [of w "reqs @ new" r] by simp
qed

lemma quiet_refl: "quiet s s"
  by (simp add: quiet_def new_requests_def)

lemma quiet_requests:
  assumes "quiet s s'"
  obtains new where "requests s' = requests s @ new" and "filter is_lookup new = []"
  using assms by (auto simp: quiet_def new_requests_def prefix_def)

lemma quietI:
  assumes "written s' = written s" and "requests s' = requests s @ new"
    and "filter is_lookup new = []"
  shows "quiet s s'"
  using assms by (simp add: quiet_def new_requests_def)

lemma quiet_trans:
  assumes "quiet s s1" and "quiet s1 s2"
  shows "quiet s s2"
proof -
  obtain n1 where n1: "requests s1 = requests s @ n1" "filter is_lookup n1 = []"
    using assms(1) by (rule quiet_requests)
  obtain n2 where n2: "requests s2 = requests s1 @ n2" "filter is_lookup n2 = []"
    using assms(2) by (rule quiet_requests)
  have "written s2 = written s"
    using assms by (simp add: quiet_def)
  moreover have "requests s2 = requests s @ (n1 @ n2)"
    using n1 n2 by simp
  moreover have "filter is_lookup (n1 @ n2) = []"
    using n1 n2 by simp
  ultimately show ?thesis
    by (rule quietI)
qed

lemma quiet_sent: "\<not> is_lookup req \<Longrightarrow> quiet s (sent req s)"
  by (rule quietI [where new = "[req]"]) (simp_all add: sent_def)

lemma quiet_lookup_failed:
  assumes "quiet s s'"
  shows "lookup_failed w (requests s') = lookup_failed w (requests s)"
proof -
  obtain new where "requests s' = requests s @ new" and "filter is_lookup new = []"
    using assms by (rule quiet_requests)
  then show ?thesis
    by (simp add: lookup_failed_append)
qed

lemma quiet_no_lookups:
  assumes "quiet s s'"
  shows "filter is_lookup (requests s') = filter is_lookup (requests s)"
proof -
  obtain new where "requests s' = requests s @ new" and "filter is_lookup new = []"
    using assms by (rule quiet_requests)
  then show ?thesis by simp
qed

lemma quiet_and_then:
  assumes "quiet s (snd m)" and "\<And>x s1. quiet s1 (snd (f x s1))"
  shows "quiet s (snd (and_then m f))"
proof (cases m)
  case (Pair r s1)
  with assms(1) have q: "quiet s s1" by simp
  show ?thesis
  proof (cases r)
    case (Ok x)
    with Pair have "and_then m f = f x s1" by (simp add: and_then_def)
    with q assms(2) [of s1 x] show ?thesis by (auto intro: quiet_trans)
  next
    case (Err e)
    with Pair q show ?thesis by (simp add: and_then_def)
  next
    case (Panic p)
    with Pair q show ?thesis by (simp add: and_then_def)
  qed
qed

lemma quiet_pure: "quiet s (snd (r, s))"
  by (simp add: quiet_refl)

lemma not_lookup [simp]:
  "\<not> is_lookup (WattTimeLoginGet u p)" "\<not> is_lookup (OpenStreetMapGet t l)"
  "is_lookup (ElectricityMapsGet k a b)" "is_lookup (WattTimeRegionGet k a b)"
  by (simp_all add: is_lookup_def is_zone_lookup_def is_region_lookup_def)

text \<open>The login, the geocoding and the whole loading of the file send no lookup.\<close>

lemma quiet_login: "quiet s (snd (getWattTimeAccessToken w s u p))"
  by (auto simp: getWattTimeAccessToken_def Let_def quiet_refl quiet_sent split: option.splits sum.splits)

lemma quiet_geocode: "quiet s (snd (getGeolocation w s l t))"
  by (auto simp: getGeolocation_def Let_def quiet_refl quiet_sent split: option.splits sum.splits)

lemma quiet_load_coordinates: "quiet s (snd (load_coordinates w s record))"
  unfolding load_coordinates_def Let_def
  by (intro quiet_and_then quiet_pure quiet_geocode)
     (auto simp: quiet_refl intro!: quiet_and_then quiet_geocode split: sum.splits)

lemma quiet_load_region: "quiet s (snd (load_region w s record))"
  unfolding load_region_def
  by (intro quiet_and_then quiet_load_coordinates) (auto simp: quiet_refl intro!: quiet_and_then)

lemma quiet_load_loop: "quiet s (snd (load_loop w s reader regions))"
proof (induction w s reader regions rule: load_loop.induct)
  case (1 w s reader regions)
  obtain row err reader' where rd: "csv_Read reader = ((row, err), reader')"
    by (metis prod.exhaust)
  show ?case
  proof (cases err)
    case (Some e)
    with rd show ?thesis
      by (simp add: load_loop_leaves_on_error quiet_refl)
  next
    case None
    obtain r s' where lr: "load_region w s row = (r, s')"
      by (metis prod.exhaust)
    have q: "quiet s s'"
      using quiet_load_region [of s w row] lr by simp
    show ?thesis
    proof (cases r)
      case (Ok region)
      have "quiet s' (snd (load_loop w s' reader' (regions @ [region])))"
        by (rule 1(1) [OF rd [symmetric] refl None lr [symmetric] Ok])
      with q have "quiet s (snd (load_loop w s' reader' (regions @ [region])))"
        by (rule quiet_trans)
      with rd None lr Ok show ?thesis
        by (simp add: load_loop.simps [of w s reader])
    next
      case (Err e)
      with rd None lr q show ?thesis by (simp add: load_loop.simps [of w s reader])
    next
      case (Panic p)
      with rd None lr q show ?thesis by (simp add: load_loop.simps [of w s reader])
    qed
  qed
qed

lemma quiet_loadRegions: "quiet s (snd (loadRegions w s fileName))"
  by (auto simp: loadRegions_def quiet_refl quiet_load_loop split: sum.splits option.splits prod.splits)

section \<open>Steps that return an error when a lookup fails\<close>


lemma guarded_pure: "guarded w s (r, s)"
  by (simp add: guarded_def)

lemma guarded_quiet: "quiet s (snd m) \<Longrightarrow> guarded w s m"
  by (simp add: guarded_def quiet_lookup_failed) (simp add: quiet_def)

lemma guarded_and_then:
  assumes "guarded w s m" and "\<And>x s1. guarded w s1 (f x s1)"
  shows "guarded w s (and_then m f)"
proof (cases m)
  case (Pair r s1)
  show ?thesis
  proof (cases r)
    case (Ok x)
    with Pair have "and_then m f = f x s1" by (simp add: and_then_def)
    with assms(1) assms(2) [of s1 x] Pair Ok show ?thesis
      by (auto simp: guarded_def is_Err_def)
  next
    case (Err e)
    with Pair assms(1) show ?thesis by (simp add: and_then_def guarded_def is_Err_def)
  next
    case (Panic p)
    with Pair assms(1) show ?thesis by (simp add: and_then_def guarded_def is_Err_def)
  qed
qed

lemma lookup_failed_sent:
  "lookup_failed w (requests (sent req s))
     = (lookup_failed w (requests s) \<or> (is_lookup req \<and> bad_status w (requests s) req))"
  by (simp add: sent_def lookup_failed_snoc)

lemma guarded_zone: "guarded w s (getElectricityMapsZone w s k lat lon)"
  by (auto simp: getElectricityMapsZone_def Let_def guarded_def lookup_failed_snoc bad_status_def
        is_Err_def sent_def split: option.splits sum.splits)

lemma guarded_region: "guarded w s (getWattTimeRegion w s k lat lon)"
  by (auto simp: getWattTimeRegion_def Let_def guarded_def lookup_failed_snoc bad_status_def
        is_Err_def sent_def split: option.splits sum.splits)

lemma guarded_enrich_region: "guarded w s (enrich_region w k t s region)"
  unfolding enrich_region_def
  by (intro guarded_and_then) (auto intro!: guarded_and_then guarded_zone guarded_region guarded_pure)

lemma guarded_enrich_regions: "guarded w s (enrich_regions w k t s regions)"
proof (induction regions arbitrary: s)
  case Nil
  show ?case by (simp add: guarded_pure)
next
  case (Cons region rest)
  show ?case
    unfolding enrich_regions.simps
    by (intro guarded_and_then guarded_enrich_region Cons.IH guarded_pure)
qed

text \<open>Writing the output (lines 95 to 125) sends no request.\<close>

lemma requests_csv_Write: "requests (snd (csv_Write w s r)) = requests s"
  by (simp add: csv_Write_def split: option.splits)

lemma requests_write_regions: "requests (snd (write_regions w s regions)) = requests s"
proof (induction regions arbitrary: s)
  case Nil
  show ?case by simp
next
  case (Cons region rest)
  obtain r s1 where cw: "csv_Write w s (region_record w region) = (r, s1)"
    by (metis prod.exhaust)
  then have "requests s1 = requests s"
    using requests_csv_Write [of w s "region_record w region"] by simp
  with cw Cons.IH [of s1] show ?case
    by (cases r) (simp_all add: and_then_def)
qed

lemma requests_emit:
  "requests (snd (and_then (csv_Write w s header) (\<lambda>_ s.
      and_then (write_regions w s regions) (\<lambda>_ s.
        case writer_Error w (written s) of
          Some e \<Rightarrow> (Err e, s)
        | None \<Rightarrow> (Ok (), s))))) = requests s"
proof -
  obtain r1 s1 where a: "csv_Write w s header = (r1, s1)"
    by (metis prod.exhaust)
  obtain r2 s2 where b: "write_regions w s1 regions = (r2, s2)"
    by (metis prod.exhaust)
  have "requests s1 = requests s"
    using requests_csv_Write [of w s header] a by simp
  moreover have "requests s2 = requests s1"
    using requests_write_regions [of w s1 regions] b by simp
  ultimately show ?thesis
    using a b by (cases r1; cases r2) (simp_all add: and_then_def split: option.splits)
qed

section \<open>Regions loaded from a populated file\<close>


lemma and_then_OkE:
  assumes "and_then m f = (Ok y, s')"
  obtains x s1 where "m = (Ok x, s1)" and "f x s1 = (Ok y, s')"
  using assms by (auto simp: and_then_def split: prod.splits result.splits)

lemma index_Ok: "index xs i = Ok x \<longleftrightarrow> i < length xs \<and> x = xs ! i"
  by (auto simp: index_def)

lemma load_region_fields:
  assumes "load_region w s row = (Ok region, s')"
  shows "10 \<le> length row \<and> ElectricityMapsZone region = row ! 8
         \<and> WattTimeRegion region = row ! 9"
proof -
  obtain latitude longitude s1 where "load_coordinates w s row = (Ok (latitude, longitude), s1)"
    using assms unfolding load_region_def by (elim and_then_OkE) auto
  with assms show ?thesis
    by (auto simp: load_region_def and_then_def index_def split: if_splits)
qed

lemma csv_Read_record:
  assumes "csv_Read reader = ((row, None), reader')"
  shows "unread reader = Fields row # unread reader'"
  using assms
  by (auto simp: csv_Read_def Let_def split: list.splits csv_line.splits if_splits)

lemma load_loop_populated:
  assumes "list_all populated_line (unread reader)" and "list_all populated_region regions"
    and "load_loop w s reader regions = (Ok out, s')"
  shows "list_all populated_region out"
  using assms
proof (induction w s reader regions rule: load_loop.induct)
  case (1 w s reader regions)
  obtain row err reader' where rd: "csv_Read reader = ((row, err), reader')"
    by (metis prod.exhaust)
  show ?case
  proof (cases err)
    case (Some e)
    with rd have "load_loop w s reader regions = (Ok regions, s)"
      by (simp add: load_loop_leaves_on_error)
    with 1 show ?thesis by simp
  next
    case None
    have ur: "unread reader = Fields row # unread reader'"
      using rd None by (simp add: csv_Read_record)
    obtain r s1 where lr: "load_region w s row = (r, s1)"
      by (metis prod.exhaust)
    show ?thesis
    proof (cases r)
      case (Ok region)
      have "populated_region region"
        using load_region_fields [of w s row region s1] lr Ok ur "1.prems"(1)
        by (simp add: populated_region_def populated_line_def)
      moreover have "load_loop w s1 reader' (regions @ [region]) = (Ok out, s')"
        using "1.prems"(3) rd None lr Ok by (simp add: load_loop.simps [of w s reader])
      ultimately show ?thesis
        using 1(1) [OF rd [symmetric] refl None lr [symmetric] Ok] "1.prems"(1,2) ur
        by simp
    next
      case (Err e)
      with rd None lr "1.prems"(3) show ?thesis
        by (simp add: load_loop.simps [of w s reader])
    next
      case (Panic p)
      with rd None lr "1.prems"(3) show ?thesis
        by (simp add: load_loop.simps [of w s reader])
    qed
  qed
qed

lemma loadRegions_populated:
  assumes "Open w fileName = Inr file" and "list_all populated_line file"
    and "loadRegions w s fileName = (Ok regions, s')"
  shows "list_all populated_region regions"
proof -
  obtain h err reader where rd: "csv_Read (csv_NewReader file) = ((h, err), reader)"
    by (metis prod.exhaust)
  show ?thesis
  proof (cases err)
    case (Some e)
    with rd assms show ?thesis by (simp add: loadRegions_def)
  next
    case None
    have "unread (csv_NewReader file) = Fields h # unread reader"
      using rd None by (simp add: csv_Read_record)
    then have "list_all populated_line (unread reader)"
      using assms(2) by (simp add: csv_NewReader_def)
    moreover have "load_loop w s reader [] = (Ok regions, s')"
      using assms rd None by (simp add: loadRegions_def)
    ultimately show ?thesis
      using load_loop_populated [of reader "[]" w s regions s'] by simp
  qed
qed

lemma enrich_region_populated:
  "populated_region region \<Longrightarrow> enrich_region w k t s region = (Ok region, s)"
  by (simp add: enrich_region_def populated_region_def and_then_def)

lemma enrich_regions_populated:
  "list_all populated_region regions \<Longrightarrow> enrich_regions w k t s regions = (Ok regions, s)"
  by (induction regions) (simp_all add: enrich_region_populated and_then_def)

section \<open>The stages of a run\<close>


lemma quiet_start_no_lookups:
  assumes "quiet start s"
  shows "filter is_lookup (requests s) = []" and "\<not> lookup_failed w (requests s)"
    and "written s = []"
proof -
  show "filter is_lookup (requests s) = []"
    using quiet_no_lookups [OF assms] by (simp add: start_def)
  show "\<not> lookup_failed w (requests s)"
    using quiet_lookup_failed [OF assms, of w] by (simp add: start_def lookup_failed_def)
  show "written s = []"
    using assms by (simp add: quiet_def start_def)
qed

text \<open>
  A run either ends before the enrichment loop, having sent no lookup and written
  nothing, or it reaches the loop with the regions loaded from the input file.
\<close>

lemma mainWithError_stages:
  obtains (early) "quiet start (snd (mainWithError w))"
  | (enriched) token s1 fileName regions s2 where
      "quiet start s2"
      "index (Args w) 1 = Ok fileName"
      "loadRegions w s1 fileName = (Ok regions, s2)"
      "mainWithError w =
         and_then (enrich_regions w (Getenv w electricityMapsAPIKeyEnvVar) token s2 regions)
           (\<lambda>regions s.
              and_then (csv_Write w s header) (\<lambda>_ s.
              and_then (write_regions w s regions) (\<lambda>_ s.
                case writer_Error w (written s) of
                  Some e \<Rightarrow> (Err e, s)
                | None \<Rightarrow> (Ok (), s))))"
proof (cases "Getenv w electricityMapsAPIKeyEnvVar = [] \<or> Getenv w wattTimeUserEnvVar = []
              \<or> Getenv w wattTimePasswordEnvVar = []")
  case True
  then have "snd (mainWithError w) = start"
    by (auto simp: mainWithError_def start_def Let_def)
  then show ?thesis
    using early by (simp add: quiet_refl)
next
  case False
  let ?login = "getWattTimeAccessToken w start (Getenv w wattTimeUserEnvVar)
                  (Getenv w wattTimePasswordEnvVar)"
  obtain r1 s1 where login: "?login = (r1, s1)"
    by (metis prod.exhaust)
  have q1: "quiet start s1"
    using quiet_login [of start w "Getenv w wattTimeUserEnvVar" "Getenv w wattTimePasswordEnvVar"]
      login by simp
  show ?thesis
  proof (cases r1)
    case (Ok token)
    show ?thesis
    proof (cases "index (Args w) 1")
      case arg: (Ok fileName)
      obtain r2 s2 where load: "loadRegions w s1 fileName = (r2, s2)"
        by (metis prod.exhaust)
      have "quiet s1 s2"
        using quiet_loadRegions [of s1 w fileName] load by simp
      with q1 have q2: "quiet start s2"
        by (rule quiet_trans)
      show ?thesis
      proof (cases r2)
        case loaded: (Ok regions)
        show ?thesis
          using False login Ok arg load loaded q2
          by (intro enriched [of s2 fileName s1 regions token])
             (simp_all add: mainWithError_def start_def and_then_def)
      next
        case (Err e)
        with False login Ok arg load have "snd (mainWithError w) = s2"
          by (simp add: mainWithError_def start_def and_then_def)
        with q2 early show ?thesis by simp
      next
        case (Panic p)
        with False login Ok arg load have "snd (mainWithError w) = s2"
          by (simp add: mainWithError_def start_def and_then_def)
        with q2 early show ?thesis by simp
      qed
    next
      case (Err e)
      with False login Ok have "snd (mainWithError w) = s1"
        by (simp add: mainWithError_def start_def and_then_def)
      with q1 early show ?thesis by simp
    next
      case (Panic p)
      with False login Ok have "snd (mainWithError w) = s1"
        by (simp add: mainWithError_def start_def and_then_def)
      with q1 early show ?thesis by simp
    qed
  next
    case (Err e)
    with False login have "snd (mainWithError w) = s1"
      by (simp add: mainWithError_def start_def and_then_def)
    with q1 early show ?thesis by simp
  next
    case (Panic p)
    with False login have "snd (mainWithError w) = s1"
      by (simp add: mainWithError_def start_def and_then_def)
    with q1 early show ?thesis by simp
  qed
qed

lemma run_without_lookups:
  assumes "list_all populated_line (input_file w)"
  shows "filter is_lookup (requests (snd (mainWithError w))) = []"
proof (cases w rule: mainWithError_stages)
  case early
  then show ?thesis by (rule quiet_start_no_lookups)
next
  case (enriched token s1 fileName regions s2)
  obtain content where content: "Open w fileName = Inr content"
    using enriched(3) by (cases "Open w fileName") (simp_all add: loadRegions_def)
  with enriched(2) assms have "list_all populated_line content"
    by (simp add: input_file_def)
  with content have "list_all populated_region regions"
    using enriched(3) by (rule loadRegions_populated)
  then have "enrich_regions w (Getenv w electricityMapsAPIKeyEnvVar) token s2 regions
               = (Ok regions, s2)"
    by (rule enrich_regions_populated)
  then have "requests (snd (mainWithError w)) = requests s2"
    using enriched(4) requests_emit [of w s2 regions] by (simp add: and_then_def)
  with enriched(1) show ?thesis
    by (simp add: quiet_start_no_lookups)
qed

lemma run_aborts_on_failed_lookup:
  assumes "lookup_failed w (requests (snd (mainWithError w)))"
  shows "is_Err (fst (mainWithError w)) \<and> written (snd (mainWithError w)) = []"
proof (cases w rule: mainWithError_stages)
  case early
  then have "\<not> lookup_failed w (requests (snd (mainWithError w)))"
    by (rule quiet_start_no_lookups)
  with assms show ?thesis
    by simp
next
  case (enriched token s1 fileName regions s2)
  let ?key = "Getenv w electricityMapsAPIKeyEnvVar"
  obtain r3 s3 where enrich: "enrich_regions w ?key token s2 regions = (r3, s3)"
    by (metis prod.exhaust)
  have g: "guarded w s2 (r3, s3)"
    using guarded_enrich_regions [of w s2 ?key token regions] enrich by simp
  have clean: "\<not> lookup_failed w (requests s2)" "written s2 = []"
    using enriched(1) by (simp_all add: quiet_start_no_lookups)
  show ?thesis
  proof (cases r3)
    case (Ok regions')
    with g clean have "\<not> lookup_failed w (requests s3)"
      by (simp add: guarded_def is_Err_def)
    moreover have "requests (snd (mainWithError w)) = requests s3"
      using enriched(4) enrich Ok requests_emit [of w s3 regions'] by (simp add: and_then_def)
    ultimately show ?thesis
      using assms by simp
  next
    case (Err e)
    with enriched(4) enrich have "mainWithError w = (Err e, s3)"
      by (simp add: and_then_def)
    with g clean show ?thesis
      by (simp add: guarded_def is_Err_def)
  next
    case (Panic p)
    with enriched(4) enrich have "mainWithError w = (Panic p, s3)"
      by (simp add: and_then_def)
    with g clean assms Panic show ?thesis
      by (simp add: guarded_def is_Err_def)
  qed
qed

section \<open>Populated fields are left alone (C3)\<close>


lemma new_requests_simps [simp]:
  "new_requests s s = []"
  "new_requests s (sent r s) = [r]"
  "new_requests s (sent r2 (sent r1 s)) = [r1, r2]"
  by (simp_all add: new_requests_def sent_def)

lemma zone_state:
  "snd (getElectricityMapsZone w s k lat lon) = s
   \<or> snd (getElectricityMapsZone w s k lat lon)
       = sent (ElectricityMapsGet k (Sprintf_f w lat) (Sprintf_f w lon)) s"
  by (simp add: getElectricityMapsZone_def Let_def split: option.splits sum.splits)

lemma region_state:
  "snd (getWattTimeRegion w s t lat lon) = s
   \<or> snd (getWattTimeRegion w s t lat lon)
       = sent (WattTimeRegionGet t (Sprintf_f w lat) (Sprintf_f w lon)) s"
  by (simp add: getWattTimeRegion_def Let_def split: option.splits sum.splits)

lemma zone_kept:
  assumes "ElectricityMapsZone region \<noteq> []"
  shows "filter is_zone_lookup (new_requests s (snd (enrich_region w k t s region))) = []"
    and "fst (enrich_region w k t s region) = Ok region'
         \<Longrightarrow> ElectricityMapsZone region' = ElectricityMapsZone region"
proof -
  let ?r = "getWattTimeRegion w s t (Latitude region) (Longitude region)"
  have eq: "enrich_region w k t s region
         = (if WattTimeRegion region = []
            then and_then ?r (\<lambda>regionID s. (Ok (region\<lparr>WattTimeRegion := regionID\<rparr>), s))
            else (Ok region, s))"
    using assms by (simp add: enrich_region_def and_then_def)
  have st: "snd (enrich_region w k t s region) = snd ?r \<or> snd (enrich_region w k t s region) = s"
    by (cases ?r rule: prod.exhaust; cases "fst ?r") (auto simp: eq and_then_def)
  with region_state [of w s t "Latitude region" "Longitude region"]
  show "filter is_zone_lookup (new_requests s (snd (enrich_region w k t s region))) = []"
    by (auto simp: is_zone_lookup_def)
  show "ElectricityMapsZone region' = ElectricityMapsZone region"
    if "fst (enrich_region w k t s region) = Ok region'"
    using that by (cases ?r rule: prod.exhaust; cases "fst ?r")
      (auto simp: eq and_then_def split: if_splits)
qed

lemma region_kept:
  assumes "WattTimeRegion region \<noteq> []"
  shows "filter is_region_lookup (new_requests s (snd (enrich_region w k t s region))) = []"
    and "fst (enrich_region w k t s region) = Ok region'
         \<Longrightarrow> WattTimeRegion region' = WattTimeRegion region"
proof -
  let ?z = "getElectricityMapsZone w s k (Latitude region) (Longitude region)"
  have eq: "enrich_region w k t s region
         = (if ElectricityMapsZone region = []
            then and_then ?z (\<lambda>zone s. (Ok (region\<lparr>ElectricityMapsZone := zone\<rparr>), s))
            else (Ok region, s))"
    using assms
    by (cases ?z rule: prod.exhaust; cases "fst ?z") (auto simp: enrich_region_def and_then_def)
  have st: "snd (enrich_region w k t s region) = snd ?z \<or> snd (enrich_region w k t s region) = s"
    by (cases ?z rule: prod.exhaust; cases "fst ?z") (auto simp: eq and_then_def)
  with zone_state [of w s k "Latitude region" "Longitude region"]
  show "filter is_region_lookup (new_requests s (snd (enrich_region w k t s region))) = []"
    by (auto simp: is_region_lookup_def)
  show "WattTimeRegion region' = WattTimeRegion region"
    if "fst (enrich_region w k t s region) = Ok region'"
    using that by (cases ?z rule: prod.exhaust; cases "fst ?z")
      (auto simp: eq and_then_def split: if_splits)
qed


subsection \<open>The lookups of a pass\<close>

lemma sendsI:
  assumes "written s' = written s" and "requests s' = requests s @ new"
    and "prefix new expected" and "is_Ok r \<Longrightarrow> new = expected"
  shows "sends s (r, s') expected"
  using assms by (simp add: sends_def new_requests_def)

lemma sends_requests:
  assumes "sends s m expected"
  obtains new where "requests (snd m) = requests s @ new" and "written (snd m) = written s"
    and "prefix new expected" and "is_Ok (fst m) \<Longrightarrow> new = expected"
    and "new_requests s (snd m) = new"
  using assms by (auto simp: sends_def)

lemma sends_zone:
  "sends s (getElectricityMapsZone w s k lat lon)
     [ElectricityMapsGet k (Sprintf_f w lat) (Sprintf_f w lon)]"
  by (auto simp: getElectricityMapsZone_def Let_def sends_def new_requests_def sent_def is_Ok_def
        split: option.splits sum.splits)

lemma sends_region:
  "sends s (getWattTimeRegion w s t lat lon)
     [WattTimeRegionGet t (Sprintf_f w lat) (Sprintf_f w lon)]"
  by (auto simp: getWattTimeRegion_def Let_def sends_def new_requests_def sent_def is_Ok_def
        split: option.splits sum.splits)

lemma sends_pure: "sends s (r, s) []"
  by (simp add: sends_def new_requests_def)

lemma sends_and_then:
  assumes "sends s m xs" and "\<And>x s1. m = (Ok x, s1) \<Longrightarrow> sends s1 (f x s1) ys"
  shows "sends s (and_then m f) (xs @ ys)"
proof (cases m)
  case (Pair r s1)
  obtain new where new: "requests s1 = requests s @ new" "written s1 = written s"
    "prefix new xs" "is_Ok r \<Longrightarrow> new = xs"
    using sends_requests [OF assms(1)] Pair by auto
  show ?thesis
  proof (cases r)
    case (Ok x)
    then have "new = xs" using new(4) by (simp add: is_Ok_def)
    obtain more where more: "requests (snd (f x s1)) = requests s1 @ more"
      "written (snd (f x s1)) = written s1" "prefix more ys"
      "is_Ok (fst (f x s1)) \<Longrightarrow> more = ys"
      using sends_requests [OF assms(2) [of x s1]] Pair Ok by auto
    have "and_then m f = f x s1"
      using Pair Ok by (simp add: and_then_def)
    moreover have "sends s (fst (f x s1), snd (f x s1)) (xs @ ys)"
      using new more \<open>new = xs\<close> by (intro sendsI [where new = "xs @ more"]) auto
    ultimately show ?thesis by simp
  next
    case (Err e)
    then have "and_then m f = (Err e, s1)" using Pair by (simp add: and_then_def)
    moreover have "sends s (Err e, s1) (xs @ ys)"
      using new by (intro sendsI [where new = new]) (auto simp: is_Ok_def prefix_def)
    ultimately show ?thesis by simp
  next
    case (Panic p)
    then have "and_then m f = (Panic p, s1)" using Pair by (simp add: and_then_def)
    moreover have "sends s (Panic p, s1) (xs @ ys)"
      using new by (intro sendsI [where new = new]) (auto simp: is_Ok_def prefix_def)
    ultimately show ?thesis by simp
  qed
qed


lemma zone_step_result:
  assumes "(if ElectricityMapsZone region = []
            then and_then (getElectricityMapsZone w s k (Latitude region) (Longitude region))
                   (\<lambda>zone s. (Ok (region\<lparr>ElectricityMapsZone := zone\<rparr>), s))
            else (Ok region, s)) = (Ok region1, s1)"
  shows "Latitude region1 = Latitude region \<and> Longitude region1 = Longitude region
         \<and> WattTimeRegion region1 = WattTimeRegion region"
  using assms by (auto simp: and_then_def split: if_splits prod.splits result.splits)

lemma sends_enrich_region: "sends s (enrich_region w k t s region) (lookups_for w k t region)"
  unfolding enrich_region_def lookups_for_def
proof (rule sends_and_then)
  show "sends s
          (if ElectricityMapsZone region = []
           then and_then (getElectricityMapsZone w s k (Latitude region) (Longitude region))
                  (\<lambda>zone s. (Ok (region\<lparr>ElectricityMapsZone := zone\<rparr>), s))
           else (Ok region, s))
          (if ElectricityMapsZone region = []
           then [ElectricityMapsGet k (Sprintf_f w (Latitude region)) (Sprintf_f w (Longitude region))]
           else [])"
    using sends_and_then [OF sends_zone [of s w k "Latitude region" "Longitude region"],
            of "\<lambda>zone s. (Ok (region\<lparr>ElectricityMapsZone := zone\<rparr>), s)" "[]"]
    by (simp add: sends_pure)
next
  fix region1 s1
  assume "(if ElectricityMapsZone region = []
           then and_then (getElectricityMapsZone w s k (Latitude region) (Longitude region))
                  (\<lambda>zone s. (Ok (region\<lparr>ElectricityMapsZone := zone\<rparr>), s))
           else (Ok region, s)) = (Ok region1, s1)"
  then have same: "Latitude region1 = Latitude region" "Longitude region1 = Longitude region"
    "WattTimeRegion region1 = WattTimeRegion region"
    using zone_step_result by blast+
  show "sends s1
          (if WattTimeRegion region1 = []
           then and_then (getWattTimeRegion w s1 t (Latitude region1) (Longitude region1))
                  (\<lambda>regionID s. (Ok (region1\<lparr>WattTimeRegion := regionID\<rparr>), s))
           else (Ok region1, s1))
          (if WattTimeRegion region = []
           then [WattTimeRegionGet t (Sprintf_f w (Latitude region)) (Sprintf_f w (Longitude region))]
           else [])"
    using sends_and_then [OF sends_region [of s1 w t "Latitude region" "Longitude region"],
            of "\<lambda>regionID s. (Ok (region1\<lparr>WattTimeRegion := regionID\<rparr>), s)" "[]"]
    by (simp add: sends_pure same)
qed

lemma kept_enrich_region:
  assumes "fst (enrich_region w k t s region) = Ok region'"
  shows "kept_fields region region'"
  unfolding kept_fields_def
  using assms zone_kept(2) [of region w k t s region'] region_kept(2) [of region w k t s region']
  by simp

lemma sends_enrich_regions:
  "sends s (enrich_regions w k t s regions) (concat (map (lookups_for w k t) regions))"
proof (induction regions arbitrary: s)
  case Nil
  show ?case by (simp add: sends_pure)
next
  case (Cons region rest)
  have "sends s1
          (and_then (enrich_regions w k t s1 rest) (\<lambda>rest s. (Ok (region1 # rest), s)))
          (concat (map (lookups_for w k t) rest))" for region1 s1
    using sends_and_then [OF Cons.IH [of s1], of "\<lambda>rest s. (Ok (region1 # rest), s)" "[]"]
    by (simp add: sends_pure)
  then have "sends s
          (and_then (enrich_region w k t s region) (\<lambda>region s.
             and_then (enrich_regions w k t s rest) (\<lambda>rest s. (Ok (region # rest), s))))
          (lookups_for w k t region @ concat (map (lookups_for w k t) rest))"
    by (intro sends_and_then sends_enrich_region)
  then show ?case
    by simp
qed

lemma kept_enrich_regions:
  assumes "fst (enrich_regions w k t s regions) = Ok out"
  shows "list_all2 kept_fields regions out"
  using assms
proof (induction regions arbitrary: s out)
  case Nil
  then show ?case by simp
next
  case (Cons region rest)
  obtain r s1 where row: "enrich_region w k t s region = (r, s1)"
    by (metis prod.exhaust)
  show ?case
  proof (cases r)
    case (Ok region')
    obtain r2 s2 where tail: "enrich_regions w k t s1 rest = (r2, s2)"
      by (metis prod.exhaust)
    show ?thesis
    proof (cases r2)
      case inner: (Ok rest')
      have "out = region' # rest'"
        using Cons.prems row Ok tail inner by (simp add: and_then_def)
      moreover have "kept_fields region region'"
        using kept_enrich_region [of w k t s region region'] row Ok by simp
      moreover have "list_all2 kept_fields rest rest'"
        using Cons.IH [of s1 rest'] tail inner by simp
      ultimately show ?thesis by simp
    next
      case (Err e)
      with Cons.prems row Ok tail show ?thesis by (simp add: and_then_def)
    next
      case (Panic p)
      with Cons.prems row Ok tail show ?thesis by (simp add: and_then_def)
    qed
  next
    case (Err e)
    with Cons.prems row show ?thesis by (simp add: and_then_def)
  next
    case (Panic p)
    with Cons.prems row show ?thesis by (simp add: and_then_def)
  qed
qed

lemma requests_and_then_emit:
  "requests (snd (and_then m (\<lambda>regions s.
      and_then (csv_Write w s header) (\<lambda>_ s.
      and_then (write_regions w s regions) (\<lambda>_ s.
        case writer_Error w (written s) of
          Some e \<Rightarrow> (Err e, s)
        | None \<Rightarrow> (Ok (), s)))))) = requests (snd m)"
proof (cases m)
  case (Pair r s1)
  show ?thesis
  proof (cases r)
    case (Ok regions)
    with Pair show ?thesis
      using requests_emit [of w s1 regions] by (simp add: and_then_def)
  next
    case (Err e)
    with Pair show ?thesis by (simp add: and_then_def)
  next
    case (Panic p)
    with Pair show ?thesis by (simp add: and_then_def)
  qed
qed

lemma is_lookup_lookups_for: "filter is_lookup (lookups_for w k t region) = lookups_for w k t region"
  by (simp add: lookups_for_def)

lemma is_lookup_concat_lookups_for:
  "filter is_lookup (concat (map (lookups_for w k t) regions))
     = concat (map (lookups_for w k t) regions)"
  by (induction regions) (simp_all add: is_lookup_lookups_for)

lemma filter_prefix_all:
  assumes "prefix xs ys" and "filter P ys = ys"
  shows "filter P xs = xs"
  using assms by (auto simp: prefix_def filter_id_conv)

lemma run_lookups:
  assumes "Getenv w electricityMapsAPIKeyEnvVar \<noteq> []" and "Getenv w wattTimeUserEnvVar \<noteq> []"
    and "Getenv w wattTimePasswordEnvVar \<noteq> []"
    and "getWattTimeAccessToken w start (Getenv w wattTimeUserEnvVar)
           (Getenv w wattTimePasswordEnvVar) = (Ok token, s0)"
    and "index (Args w) 1 = Ok fileName"
    and "loadRegions w s0 fileName = (Ok loaded, s2)"
  shows "prefix (filter is_lookup (requests (snd (mainWithError w))))
           (concat (map (lookups_for w (Getenv w electricityMapsAPIKeyEnvVar) token) loaded))"
    and "is_Ok (fst (mainWithError w)) \<Longrightarrow>
         filter is_lookup (requests (snd (mainWithError w)))
           = concat (map (lookups_for w (Getenv w electricityMapsAPIKeyEnvVar) token) loaded)"
    and "requests (snd (mainWithError w))
           = requests s2 @ filter is_lookup (requests (snd (mainWithError w)))"
proof -
  let ?key = "Getenv w electricityMapsAPIKeyEnvVar"
  let ?pass = "enrich_regions w ?key token s2 loaded"
  let ?expected = "concat (map (lookups_for w ?key token) loaded)"
  have main: "mainWithError w
        = and_then ?pass (\<lambda>regions s.
            and_then (csv_Write w s header) (\<lambda>_ s.
            and_then (write_regions w s regions) (\<lambda>_ s.
              case writer_Error w (written s) of
                Some e \<Rightarrow> (Err e, s)
              | None \<Rightarrow> (Ok (), s))))"
    using assms by (simp add: mainWithError_def start_def and_then_def)
  then have reqs: "requests (snd (mainWithError w)) = requests (snd ?pass)"
    by (simp add: requests_and_then_emit)
  have "quiet start s0"
    using quiet_login [of start w "Getenv w wattTimeUserEnvVar" "Getenv w wattTimePasswordEnvVar"]
      assms(4) by simp
  moreover have "quiet s0 s2"
    using quiet_loadRegions [of s0 w fileName] assms(6) by simp
  ultimately have "quiet start s2"
    by (rule quiet_trans)
  then have before: "filter is_lookup (requests s2) = []"
    by (rule quiet_start_no_lookups)
  obtain new where new: "requests (snd ?pass) = requests s2 @ new" "prefix new ?expected"
    "is_Ok (fst ?pass) \<Longrightarrow> new = ?expected"
    using sends_requests [OF sends_enrich_regions [of s2 w ?key token loaded]] by metis
  have "filter is_lookup new = new"
    using new(2) is_lookup_concat_lookups_for by (rule filter_prefix_all)
  with reqs new(1) before have all: "filter is_lookup (requests (snd (mainWithError w))) = new"
    by simp
  with new(2) show "prefix (filter is_lookup (requests (snd (mainWithError w)))) ?expected"
    by simp
  from reqs new(1) all show "requests (snd (mainWithError w))
           = requests s2 @ filter is_lookup (requests (snd (mainWithError w)))"
    by simp
  show "filter is_lookup (requests (snd (mainWithError w))) = ?expected"
    if "is_Ok (fst (mainWithError w))"
  proof -
    have "is_Ok (fst ?pass)"
      using that main by (cases ?pass rule: prod.exhaust; cases "fst ?pass")
        (auto simp: and_then_def is_Ok_def)
    with new(3) all show ?thesis by simp
  qed
qed

subsection \<open>Fields that are set\<close>

text \<open>
  C3. For a record whose \<^verbatim>\<open>electricity_maps_zone\<close> is not empty, the loop body sends no
  zone lookup and, when it returns a region, the field has its old value; the same for
  \<^verbatim>\<open>watt_time_region\<close> and the region lookup. So on regions that all have both fields
  the enrichment loop sends nothing and returns them unchanged, and a run on an input
  file whose rows all have both fields sends no lookup at all. For any list of regions,
  with fields set or not: the requests the enrichment loop sends are, in order, the
  lookups of the empty fields only (\<open>lookups_for\<close>), up to the point where it returns;
  when it returns without an error it has sent exactly those, and every field that was
  set has its value in the output. And the lookups of a whole run are among those of the
  empty fields of the regions it loaded.
\<close>

theorem populated_fields_are_not_looked_up:
  "(ElectricityMapsZone region \<noteq> [] \<longrightarrow>
      filter is_zone_lookup (new_requests s (snd (enrich_region w k t s region))) = []
      \<and> (\<forall>region'. fst (enrich_region w k t s region) = Ok region'
            \<longrightarrow> ElectricityMapsZone region' = ElectricityMapsZone region))
   \<and> (WattTimeRegion region \<noteq> [] \<longrightarrow>
      filter is_region_lookup (new_requests s (snd (enrich_region w k t s region))) = []
      \<and> (\<forall>region'. fst (enrich_region w k t s region) = Ok region'
            \<longrightarrow> WattTimeRegion region' = WattTimeRegion region))
   \<and> (list_all populated_region regions \<longrightarrow>
      enrich_regions w k t s regions = (Ok regions, s))
   \<and> (list_all populated_line (input_file w) \<longrightarrow>
      filter is_lookup (requests (snd (mainWithError w))) = [])
   \<and> prefix (new_requests s (snd (enrich_regions w k t s mixed)))
        (concat (map (lookups_for w k t) mixed))
   \<and> (fst (enrich_regions w k t s mixed) = Ok out \<longrightarrow>
      list_all2 kept_fields mixed out
      \<and> new_requests s (snd (enrich_regions w k t s mixed)) = concat (map (lookups_for w k t) mixed))
   \<and> (Getenv w electricityMapsAPIKeyEnvVar \<noteq> [] \<and> Getenv w wattTimeUserEnvVar \<noteq> []
      \<and> Getenv w wattTimePasswordEnvVar \<noteq> []
      \<and> getWattTimeAccessToken w start (Getenv w wattTimeUserEnvVar)
            (Getenv w wattTimePasswordEnvVar) = (Ok token, s_login)
      \<and> index (Args w) 1 = Ok fileName
      \<and> loadRegions w s_login fileName = (Ok loaded, s_loaded) \<longrightarrow>
      prefix (filter is_lookup (requests (snd (mainWithError w))))
        (concat (map (lookups_for w (Getenv w electricityMapsAPIKeyEnvVar) token) loaded)))"
proof (intro conjI impI allI)
  let ?pass = "enrich_regions w k t s mixed"
  have pass: "sends s ?pass (concat (map (lookups_for w k t) mixed))"
    by (rule sends_enrich_regions)
  show "prefix (new_requests s (snd ?pass)) (concat (map (lookups_for w k t) mixed))"
    using pass by (simp add: sends_def)
  show "list_all2 kept_fields mixed out" if "fst ?pass = Ok out"
    using that by (rule kept_enrich_regions)
  show "new_requests s (snd ?pass) = concat (map (lookups_for w k t) mixed)" if "fst ?pass = Ok out"
    using that pass by (simp add: sends_def is_Ok_def)
  show "prefix (filter is_lookup (requests (snd (mainWithError w))))
          (concat (map (lookups_for w (Getenv w electricityMapsAPIKeyEnvVar) token) loaded))"
    if "Getenv w electricityMapsAPIKeyEnvVar \<noteq> [] \<and> Getenv w wattTimeUserEnvVar \<noteq> []
        \<and> Getenv w wattTimePasswordEnvVar \<noteq> []
        \<and> getWattTimeAccessToken w start (Getenv w wattTimeUserEnvVar)
              (Getenv w wattTimePasswordEnvVar) = (Ok token, s_login)
        \<and> index (Args w) 1 = Ok fileName
        \<and> loadRegions w s_login fileName = (Ok loaded, s_loaded)"
    using that by (intro run_lookups(1) [where ?s0.0 = s_login and fileName = fileName and ?s2.0 = s_loaded]) simp_all
  show "filter is_zone_lookup (new_requests s (snd (enrich_region w k t s region))) = []"
    if "ElectricityMapsZone region \<noteq> []"
    using that by (rule zone_kept)
  show "ElectricityMapsZone region' = ElectricityMapsZone region"
    if "ElectricityMapsZone region \<noteq> []" and "fst (enrich_region w k t s region) = Ok region'"
    for region'
    using that by (rule zone_kept)
  show "filter is_region_lookup (new_requests s (snd (enrich_region w k t s region))) = []"
    if "WattTimeRegion region \<noteq> []"
    using that by (rule region_kept)
  show "WattTimeRegion region' = WattTimeRegion region"
    if "WattTimeRegion region \<noteq> []" and "fst (enrich_region w k t s region) = Ok region'"
    for region'
    using that by (rule region_kept)
  show "enrich_regions w k t s regions = (Ok regions, s)" if "list_all populated_region regions"
    using that by (rule enrich_regions_populated)
  show "filter is_lookup (requests (snd (mainWithError w))) = []"
    if "list_all populated_line (input_file w)"
    using that by (rule run_without_lookups)
qed

lemma populated_run:
  "mainWithError populated_world
     = (Ok (), \<lparr>requests = [WattTimeLoginGet ''wt-user'' ''wt-password''],
               written = [header, full_row]\<rparr>)"
  by code_simp

lemma mixed_calls:
  "fst (enrich_regions mixed_world ''em-key'' ''t0'' start [blank_region, full_region])
     = Ok [blank_region\<lparr>ElectricityMapsZone := ''US-VA'', WattTimeRegion := ''PJM_DC''\<rparr>,
           full_region]"
  "concat (map (lookups_for mixed_world ''em-key'' ''t0'') [blank_region, full_region])
     = [ElectricityMapsGet ''em-key'' ''0.000000'' ''0.000000'',
        WattTimeRegionGet ''t0'' ''0.000000'' ''0.000000'']"
  "getWattTimeAccessToken mixed_world start ''wt-user'' ''wt-password''
     = (Ok ''t0'', \<lparr>requests = [WattTimeLoginGet ''wt-user'' ''wt-password''], written = []\<rparr>)"
  "loadRegions mixed_world
       \<lparr>requests = [WattTimeLoginGet ''wt-user'' ''wt-password''], written = []\<rparr> ''regions.csv''
     = (Ok [full_region\<lparr>ElectricityMapsZone := [], WattTimeRegion := []\<rparr>, full_region],
        \<lparr>requests = [WattTimeLoginGet ''wt-user'' ''wt-password'',
                      OpenStreetMapGet ''city'' ''N. Virginia''], written = []\<rparr>)"
  "concat (map (lookups_for mixed_world ''em-key'' ''t0'')
       [full_region\<lparr>ElectricityMapsZone := [], WattTimeRegion := []\<rparr>, full_region])
     = [ElectricityMapsGet ''em-key'' ''37.500000'' ''-78.600000'',
        WattTimeRegionGet ''t0'' ''37.500000'' ''-78.600000'']"
  "filter is_lookup (requests (snd (mainWithError mixed_world)))
     = [ElectricityMapsGet ''em-key'' ''37.500000'' ''-78.600000'',
        WattTimeRegionGet ''t0'' ''37.500000'' ''-78.600000'']"
  by code_simp+

theorem populated_fields_witness:
  "ElectricityMapsZone full_region \<noteq> []
   \<and> WattTimeRegion full_region \<noteq> []
   \<and> list_all populated_region [full_region]
   \<and> list_all populated_line (input_file populated_world)
   \<and> filter is_zone_lookup (new_requests start
        (snd (enrich_region populated_world ''em-key'' ''t0'' start full_region))) = []
   \<and> filter is_region_lookup (new_requests start
        (snd (enrich_region populated_world ''em-key'' ''t0'' start full_region))) = []
   \<and> enrich_regions populated_world ''em-key'' ''t0'' start [full_region]
       = (Ok [full_region], start)
   \<and> filter is_lookup (requests (snd (mainWithError populated_world))) = []
   \<and> requests (snd (mainWithError populated_world)) = [WattTimeLoginGet ''wt-user'' ''wt-password'']
   \<and> fst (enrich_regions mixed_world ''em-key'' ''t0'' start [blank_region, full_region])
       = Ok [blank_region\<lparr>ElectricityMapsZone := ''US-VA'', WattTimeRegion := ''PJM_DC''\<rparr>,
             full_region]
   \<and> list_all2 kept_fields [blank_region, full_region]
        [blank_region\<lparr>ElectricityMapsZone := ''US-VA'', WattTimeRegion := ''PJM_DC''\<rparr>,
         full_region]
   \<and> new_requests start
        (snd (enrich_regions mixed_world ''em-key'' ''t0'' start [blank_region, full_region]))
       = concat (map (lookups_for mixed_world ''em-key'' ''t0'') [blank_region, full_region])
   \<and> concat (map (lookups_for mixed_world ''em-key'' ''t0'') [blank_region, full_region])
       = [ElectricityMapsGet ''em-key'' ''0.000000'' ''0.000000'',
          WattTimeRegionGet ''t0'' ''0.000000'' ''0.000000'']
   \<and> loadRegions mixed_world
         \<lparr>requests = [WattTimeLoginGet ''wt-user'' ''wt-password''], written = []\<rparr>
         ''regions.csv''
       = (Ok [full_region\<lparr>ElectricityMapsZone := [], WattTimeRegion := []\<rparr>, full_region],
          \<lparr>requests = [WattTimeLoginGet ''wt-user'' ''wt-password'',
                        OpenStreetMapGet ''city'' ''N. Virginia''], written = []\<rparr>)
   \<and> prefix (filter is_lookup (requests (snd (mainWithError mixed_world))))
        (concat (map (lookups_for mixed_world ''em-key'' ''t0'')
           [full_region\<lparr>ElectricityMapsZone := [], WattTimeRegion := []\<rparr>, full_region]))
   \<and> filter is_lookup (requests (snd (mainWithError mixed_world)))
       = [ElectricityMapsGet ''em-key'' ''37.500000'' ''-78.600000'',
          WattTimeRegionGet ''t0'' ''37.500000'' ''-78.600000'']"
proof -
  have populated: "ElectricityMapsZone full_region \<noteq> []" "WattTimeRegion full_region \<noteq> []"
    "list_all populated_region [full_region]"
    by (simp_all add: full_region_def populated_region_def)
  have input: "list_all populated_line (input_file populated_world)"
    by (simp add: input_file_def populated_world_def stub_world_def index_def populated_line_def
          header_def full_row_def)
  have rerun: "requests (snd (mainWithError populated_world))
                 = [WattTimeLoginGet ''wt-user'' ''wt-password'']"
    by (simp add: populated_run)
  have env: "Getenv mixed_world electricityMapsAPIKeyEnvVar = ''em-key''"
    "Getenv mixed_world wattTimeUserEnvVar = ''wt-user''"
    "Getenv mixed_world wattTimePasswordEnvVar = ''wt-password''"
    "index (Args mixed_world) 1 = Ok ''regions.csv''"
    by (simp_all add: mixed_world_def stub_world_def index_def electricityMapsAPIKeyEnvVar_def
          wattTimeUserEnvVar_def wattTimePasswordEnvVar_def)
  note all_populated = populated_fields_are_not_looked_up
      [where region = full_region and s = start and w = populated_world
         and k = "''em-key''" and t = "''t0''" and regions = "[full_region]"]
  note some_empty = populated_fields_are_not_looked_up
      [where s = start and w = mixed_world and k = "''em-key''" and t = "''t0''"
         and mixed = "[blank_region, full_region]"
         and out = "[blank_region\<lparr>ElectricityMapsZone := ''US-VA'', WattTimeRegion := ''PJM_DC''\<rparr>,
                     full_region]"
         and token = "''t0''"
         and s_login = "\<lparr>requests = [WattTimeLoginGet ''wt-user'' ''wt-password''], written = []\<rparr>"
         and fileName = "''regions.csv''"
         and loaded = "[full_region\<lparr>ElectricityMapsZone := [], WattTimeRegion := []\<rparr>, full_region]"
         and s_loaded = "\<lparr>requests = [WattTimeLoginGet ''wt-user'' ''wt-password'',
                                        OpenStreetMapGet ''city'' ''N. Virginia''], written = []\<rparr>",
       unfolded env]
  have pass: "list_all2 kept_fields [blank_region, full_region]
        [blank_region\<lparr>ElectricityMapsZone := ''US-VA'', WattTimeRegion := ''PJM_DC''\<rparr>,
         full_region]"
    "new_requests start
        (snd (enrich_regions mixed_world ''em-key'' ''t0'' start [blank_region, full_region]))
       = concat (map (lookups_for mixed_world ''em-key'' ''t0'') [blank_region, full_region])"
    using some_empty mixed_calls(1) by blast+
  have "''em-key'' \<noteq> []" and "''wt-user'' \<noteq> []" and "''wt-password'' \<noteq> []"
    by simp_all
  then have run: "prefix (filter is_lookup (requests (snd (mainWithError mixed_world))))
        (concat (map (lookups_for mixed_world ''em-key'' ''t0'')
           [full_region\<lparr>ElectricityMapsZone := [], WattTimeRegion := []\<rparr>, full_region]))"
    using some_empty mixed_calls(3,4) by blast
  have before: "filter is_zone_lookup (new_requests start
        (snd (enrich_region populated_world ''em-key'' ''t0'' start full_region))) = []"
    "filter is_region_lookup (new_requests start
        (snd (enrich_region populated_world ''em-key'' ''t0'' start full_region))) = []"
    "enrich_regions populated_world ''em-key'' ''t0'' start [full_region]
       = (Ok [full_region], start)"
    "filter is_lookup (requests (snd (mainWithError populated_world))) = []"
    using all_populated populated input by blast+
  show ?thesis
    by (intro conjI populated input rerun before pass run mixed_calls)
qed

section \<open>Status 404 (C4)\<close>


lemma zone_not_found:
  assumes "NewRequest w (ElectricityMapsGet k (Sprintf_f w lat) (Sprintf_f w lon)) = None"
    and "client_Do w (requests s) (ElectricityMapsGet k (Sprintf_f w lat) (Sprintf_f w lon))
           = Inr resp"
    and "StatusCode resp = 404"
  shows "getElectricityMapsZone w s k lat lon
           = (Ok [], sent (ElectricityMapsGet k (Sprintf_f w lat) (Sprintf_f w lon)) s)"
  using assms by (simp add: getElectricityMapsZone_def)

lemma region_not_found:
  assumes "NewRequest w (WattTimeRegionGet t (Sprintf_f w lat) (Sprintf_f w lon)) = None"
    and "client_Do w (requests s) (WattTimeRegionGet t (Sprintf_f w lat) (Sprintf_f w lon))
           = Inr resp"
    and "StatusCode resp = 404"
  shows "getWattTimeRegion w s t lat lon
           = (Ok [], sent (WattTimeRegionGet t (Sprintf_f w lat) (Sprintf_f w lon)) s)"
  using assms by (simp add: getWattTimeRegion_def)

lemma not_found_row_continues:
  assumes "ElectricityMapsZone region = []" and "WattTimeRegion region = []"
    and "zreq = ElectricityMapsGet k (Sprintf_f w (Latitude region)) (Sprintf_f w (Longitude region))"
    and "rreq = WattTimeRegionGet t (Sprintf_f w (Latitude region)) (Sprintf_f w (Longitude region))"
    and "NewRequest w zreq = None" and "NewRequest w rreq = None"
    and "client_Do w (requests s) zreq = Inr zresp" and "StatusCode zresp = 404"
    and "client_Do w (requests s @ [zreq]) rreq = Inr rresp" and "StatusCode rresp = 404"
  shows "enrich_regions w k t s (region # rest)
           = and_then (enrich_regions w k t (sent rreq (sent zreq s)) rest)
               (\<lambda>rest s. (Ok (region # rest), s))"
proof -
  have z: "getElectricityMapsZone w s k (Latitude region) (Longitude region)
             = (Ok [], sent zreq s)"
    using assms by (simp add: zone_not_found)
  have "requests (sent zreq s) = requests s @ [zreq]"
    by (simp add: sent_def)
  then have r: "getWattTimeRegion w (sent zreq s) t (Latitude region) (Longitude region)
             = (Ok [], sent rreq (sent zreq s))"
    using assms by (simp add: region_not_found)
  have "enrich_region w k t s region = (Ok region, sent rreq (sent zreq s))"
    using assms(1,2) z r by (simp add: enrich_region_def and_then_def)
  then show ?thesis
    by (simp add: and_then_def)
qed

lemma zone_not_found_row_goes_on:
  assumes "ElectricityMapsZone region = []"
    and "zreq = ElectricityMapsGet k (Sprintf_f w (Latitude region)) (Sprintf_f w (Longitude region))"
    and "NewRequest w zreq = None"
    and "client_Do w (requests s) zreq = Inr zresp" and "StatusCode zresp = 404"
  shows "enrich_region w k t s region
           = (if WattTimeRegion region = []
              then and_then (getWattTimeRegion w (sent zreq s) t (Latitude region) (Longitude region))
                     (\<lambda>regionID s. (Ok (region\<lparr>WattTimeRegion := regionID\<rparr>), s))
              else (Ok region, sent zreq s))"
proof -
  have "getElectricityMapsZone w s k (Latitude region) (Longitude region) = (Ok [], sent zreq s)"
    using assms by (simp add: zone_not_found)
  then show ?thesis
    using assms(1) by (cases region) (simp add: enrich_region_def and_then_def)
qed

lemma region_not_found_row_is_kept:
  assumes "WattTimeRegion region = []"
    and "(if ElectricityMapsZone region = []
          then and_then (getElectricityMapsZone w s k (Latitude region) (Longitude region))
                 (\<lambda>zone s. (Ok (region\<lparr>ElectricityMapsZone := zone\<rparr>), s))
          else (Ok region, s)) = (Ok region', s')"
    and "rreq = WattTimeRegionGet t (Sprintf_f w (Latitude region)) (Sprintf_f w (Longitude region))"
    and "NewRequest w rreq = None"
    and "client_Do w (requests s') rreq = Inr rresp" and "StatusCode rresp = 404"
  shows "enrich_region w k t s region = (Ok region', sent rreq s')"
proof -
  have same: "Latitude region' = Latitude region" "Longitude region' = Longitude region"
    "WattTimeRegion region' = WattTimeRegion region"
    using zone_step_result [OF assms(2)] by simp_all
  then have "getWattTimeRegion w s' t (Latitude region') (Longitude region')
               = (Ok [], sent rreq s')"
    using assms(3,4,5,6) by (simp add: region_not_found)
  moreover have "region'\<lparr>WattTimeRegion := []\<rparr> = region'"
    using same(3) assms(1) by simp
  ultimately show ?thesis
    using assms(1,2) same(3) by (simp add: enrich_region_def and_then_def)
qed

lemma loop_goes_on:
  assumes "enrich_region w k t s region = (Ok region', s')"
  shows "enrich_regions w k t s (region # rest)
           = and_then (enrich_regions w k t s' rest) (\<lambda>rest s. (Ok (region' # rest), s))"
  using assms by (simp add: and_then_def)

text \<open>
  C4. When the zone lookup, or the region lookup, is answered with status 404, it
  returns the empty string and a nil error. And the run goes on. For a row with both
  fields empty whose two lookups are answered with 404, the enrichment loop keeps the
  row as it is and continues with the rows after it. When the zone lookup of a row is
  answered with 404, the loop body goes on to the region step with the zone still empty:
  its result is that of the region lookup, or the row itself when the region is set.
  When the region lookup of a row is answered with 404, the loop body returns the row as
  the zone step left it, without an error. And whenever the loop body returns a row
  without an error, the loop continues with the rows after it.
\<close>

theorem not_found_is_empty_result:
  "(NewRequest w (ElectricityMapsGet k (Sprintf_f w lat) (Sprintf_f w lon)) = None
      \<and> client_Do w (requests s) (ElectricityMapsGet k (Sprintf_f w lat) (Sprintf_f w lon))
          = Inr resp
      \<and> StatusCode resp = 404
    \<longrightarrow> getElectricityMapsZone w s k lat lon
          = (Ok [], sent (ElectricityMapsGet k (Sprintf_f w lat) (Sprintf_f w lon)) s))
   \<and> (NewRequest w (WattTimeRegionGet t (Sprintf_f w lat) (Sprintf_f w lon)) = None
      \<and> client_Do w (requests s) (WattTimeRegionGet t (Sprintf_f w lat) (Sprintf_f w lon))
          = Inr resp'
      \<and> StatusCode resp' = 404
    \<longrightarrow> getWattTimeRegion w s t lat lon
          = (Ok [], sent (WattTimeRegionGet t (Sprintf_f w lat) (Sprintf_f w lon)) s))
   \<and> (ElectricityMapsZone region = [] \<and> WattTimeRegion region = []
      \<and> zreq = ElectricityMapsGet k (Sprintf_f w (Latitude region)) (Sprintf_f w (Longitude region))
      \<and> rreq = WattTimeRegionGet t (Sprintf_f w (Latitude region)) (Sprintf_f w (Longitude region))
      \<and> NewRequest w zreq = None \<and> NewRequest w rreq = None
      \<and> client_Do w (requests s) zreq = Inr zresp \<and> StatusCode zresp = 404
      \<and> client_Do w (requests s @ [zreq]) rreq = Inr rresp \<and> StatusCode rresp = 404
    \<longrightarrow> enrich_regions w k t s (region # rest)
          = and_then (enrich_regions w k t (sent rreq (sent zreq s)) rest)
              (\<lambda>rest s. (Ok (region # rest), s)))
   \<and> (ElectricityMapsZone region = []
      \<and> zreq = ElectricityMapsGet k (Sprintf_f w (Latitude region)) (Sprintf_f w (Longitude region))
      \<and> NewRequest w zreq = None
      \<and> client_Do w (requests s) zreq = Inr zresp \<and> StatusCode zresp = 404
    \<longrightarrow> enrich_region w k t s region
          = (if WattTimeRegion region = []
             then and_then (getWattTimeRegion w (sent zreq s) t (Latitude region) (Longitude region))
                    (\<lambda>regionID s. (Ok (region\<lparr>WattTimeRegion := regionID\<rparr>), s))
             else (Ok region, sent zreq s)))
   \<and> (WattTimeRegion row = []
      \<and> (if ElectricityMapsZone row = []
          then and_then (getElectricityMapsZone w s k (Latitude row) (Longitude row))
                 (\<lambda>zone s. (Ok (row\<lparr>ElectricityMapsZone := zone\<rparr>), s))
          else (Ok row, s)) = (Ok row', s')
      \<and> wreq = WattTimeRegionGet t (Sprintf_f w (Latitude row)) (Sprintf_f w (Longitude row))
      \<and> NewRequest w wreq = None
      \<and> client_Do w (requests s') wreq = Inr wresp \<and> StatusCode wresp = 404
    \<longrightarrow> enrich_region w k t s row = (Ok row', sent wreq s'))
   \<and> (enrich_region w k t s first = (Ok first', after)
    \<longrightarrow> enrich_regions w k t s (first # others)
          = and_then (enrich_regions w k t after others) (\<lambda>rest s. (Ok (first' # rest), s)))"
proof (intro conjI impI)
  show "getElectricityMapsZone w s k lat lon
          = (Ok [], sent (ElectricityMapsGet k (Sprintf_f w lat) (Sprintf_f w lon)) s)"
    if "NewRequest w (ElectricityMapsGet k (Sprintf_f w lat) (Sprintf_f w lon)) = None
        \<and> client_Do w (requests s) (ElectricityMapsGet k (Sprintf_f w lat) (Sprintf_f w lon))
            = Inr resp
        \<and> StatusCode resp = 404"
    using that by (simp add: zone_not_found)
  show "getWattTimeRegion w s t lat lon
          = (Ok [], sent (WattTimeRegionGet t (Sprintf_f w lat) (Sprintf_f w lon)) s)"
    if "NewRequest w (WattTimeRegionGet t (Sprintf_f w lat) (Sprintf_f w lon)) = None
        \<and> client_Do w (requests s) (WattTimeRegionGet t (Sprintf_f w lat) (Sprintf_f w lon))
            = Inr resp'
        \<and> StatusCode resp' = 404"
    using that by (simp add: region_not_found)
  show "enrich_regions w k t s (region # rest)
          = and_then (enrich_regions w k t (sent rreq (sent zreq s)) rest)
              (\<lambda>rest s. (Ok (region # rest), s))"
    if "ElectricityMapsZone region = [] \<and> WattTimeRegion region = []
        \<and> zreq = ElectricityMapsGet k (Sprintf_f w (Latitude region)) (Sprintf_f w (Longitude region))
        \<and> rreq = WattTimeRegionGet t (Sprintf_f w (Latitude region)) (Sprintf_f w (Longitude region))
        \<and> NewRequest w zreq = None \<and> NewRequest w rreq = None
        \<and> client_Do w (requests s) zreq = Inr zresp \<and> StatusCode zresp = 404
        \<and> client_Do w (requests s @ [zreq]) rreq = Inr rresp \<and> StatusCode rresp = 404"
    using that not_found_row_continues [where region = region and zreq = zreq and rreq = rreq
      and w = w and k = k and t = t and s = s and zresp = zresp and rresp = rresp and rest = rest]
    by blast
  show "enrich_region w k t s region
          = (if WattTimeRegion region = []
             then and_then (getWattTimeRegion w (sent zreq s) t (Latitude region) (Longitude region))
                    (\<lambda>regionID s. (Ok (region\<lparr>WattTimeRegion := regionID\<rparr>), s))
             else (Ok region, sent zreq s))"
    if "ElectricityMapsZone region = []
        \<and> zreq = ElectricityMapsGet k (Sprintf_f w (Latitude region)) (Sprintf_f w (Longitude region))
        \<and> NewRequest w zreq = None
        \<and> client_Do w (requests s) zreq = Inr zresp \<and> StatusCode zresp = 404"
    using that zone_not_found_row_goes_on [where region = region and zreq = zreq and w = w
      and k = k and t = t and s = s and zresp = zresp]
    by blast
  show "enrich_region w k t s row = (Ok row', sent wreq s')"
    if "WattTimeRegion row = []
        \<and> (if ElectricityMapsZone row = []
            then and_then (getElectricityMapsZone w s k (Latitude row) (Longitude row))
                   (\<lambda>zone s. (Ok (row\<lparr>ElectricityMapsZone := zone\<rparr>), s))
            else (Ok row, s)) = (Ok row', s')
        \<and> wreq = WattTimeRegionGet t (Sprintf_f w (Latitude row)) (Sprintf_f w (Longitude row))
        \<and> NewRequest w wreq = None
        \<and> client_Do w (requests s') wreq = Inr wresp \<and> StatusCode wresp = 404"
    using that region_not_found_row_is_kept [where region = row and region' = row' and w = w
      and k = k and t = t and s = s and s' = s' and rreq = wreq and rresp = wresp]
    by blast
  show "enrich_regions w k t s (first # others)
          = and_then (enrich_regions w k t after others) (\<lambda>rest s. (Ok (first' # rest), s))"
    if "enrich_region w k t s first = (Ok first', after)"
    using that by (rule loop_goes_on)
qed

lemma not_found_calls:
  "getElectricityMapsZone not_found_world start ''em-key'' 0 0
     = (Ok [], sent (ElectricityMapsGet ''em-key'' ''0.000000'' ''0.000000'') start)"
  "getWattTimeRegion not_found_world start ''t0'' 0 0
     = (Ok [], sent (WattTimeRegionGet ''t0'' ''0.000000'' ''0.000000'') start)"
  "enrich_regions not_found_world ''em-key'' ''t0'' start [blank_region, full_region]
     = (Ok [blank_region, full_region],
        \<lparr>requests = [ElectricityMapsGet ''em-key'' ''0.000000'' ''0.000000'',
                      WattTimeRegionGet ''t0'' ''0.000000'' ''0.000000''],
          written = []\<rparr>)"
  by code_simp+

lemma zone_not_found_calls:
  "client_Do zone_not_found_world (requests start)
     (ElectricityMapsGet ''em-key'' ''0.000000'' ''0.000000'')
     = Inr \<lparr>StatusCode = 404, Body = Inr ''Not Found''\<rparr>"
  "(if WattTimeRegion blank_region = []
    then and_then (getWattTimeRegion zone_not_found_world
                     (sent (ElectricityMapsGet ''em-key'' ''0.000000'' ''0.000000'') start) ''t0''
                     (Latitude blank_region) (Longitude blank_region))
           (\<lambda>regionID s. (Ok (blank_region\<lparr>WattTimeRegion := regionID\<rparr>), s))
    else (Ok blank_region, sent (ElectricityMapsGet ''em-key'' ''0.000000'' ''0.000000'') start))
     = (Ok (blank_region\<lparr>WattTimeRegion := ''PJM_DC''\<rparr>),
        \<lparr>requests = [ElectricityMapsGet ''em-key'' ''0.000000'' ''0.000000'',
                      WattTimeRegionGet ''t0'' ''0.000000'' ''0.000000''],
          written = []\<rparr>)"
  "and_then (enrich_regions zone_not_found_world ''em-key'' ''t0''
               \<lparr>requests = [ElectricityMapsGet ''em-key'' ''0.000000'' ''0.000000'',
                             WattTimeRegionGet ''t0'' ''0.000000'' ''0.000000''],
                 written = []\<rparr> [full_region])
     (\<lambda>rest s. (Ok (blank_region\<lparr>WattTimeRegion := ''PJM_DC''\<rparr> # rest), s))
     = (Ok [blank_region\<lparr>WattTimeRegion := ''PJM_DC''\<rparr>, full_region],
        \<lparr>requests = [ElectricityMapsGet ''em-key'' ''0.000000'' ''0.000000'',
                      WattTimeRegionGet ''t0'' ''0.000000'' ''0.000000''],
          written = []\<rparr>)"
  by code_simp+

lemma region_not_found_calls:
  "(if ElectricityMapsZone blank_region = []
    then and_then (getElectricityMapsZone region_not_found_world start ''em-key''
                     (Latitude blank_region) (Longitude blank_region))
           (\<lambda>zone s. (Ok (blank_region\<lparr>ElectricityMapsZone := zone\<rparr>), s))
    else (Ok blank_region, start))
     = (Ok (blank_region\<lparr>ElectricityMapsZone := ''US-VA''\<rparr>),
        \<lparr>requests = [ElectricityMapsGet ''em-key'' ''0.000000'' ''0.000000''], written = []\<rparr>)"
  "client_Do region_not_found_world
     (requests \<lparr>requests = [ElectricityMapsGet ''em-key'' ''0.000000'' ''0.000000''], written = []\<rparr>)
     (WattTimeRegionGet ''t0'' ''0.000000'' ''0.000000'')
     = Inr \<lparr>StatusCode = 404, Body = Inr ''Not Found''\<rparr>"
  by code_simp+

theorem not_found_witness:
  "StatusCode \<lparr>StatusCode = 404, Body = Inr ''Not Found''\<rparr> = 404
   \<and> client_Do not_found_world (requests start)
        (ElectricityMapsGet ''em-key'' ''0.000000'' ''0.000000'')
       = Inr \<lparr>StatusCode = 404, Body = Inr ''Not Found''\<rparr>
   \<and> getElectricityMapsZone not_found_world start ''em-key'' 0 0
       = (Ok [], sent (ElectricityMapsGet ''em-key'' ''0.000000'' ''0.000000'') start)
   \<and> getWattTimeRegion not_found_world start ''t0'' 0 0
       = (Ok [], sent (WattTimeRegionGet ''t0'' ''0.000000'' ''0.000000'') start)
   \<and> enrich_regions not_found_world ''em-key'' ''t0'' start [blank_region, full_region]
       = (Ok [blank_region, full_region],
          \<lparr>requests = [ElectricityMapsGet ''em-key'' ''0.000000'' ''0.000000'',
                        WattTimeRegionGet ''t0'' ''0.000000'' ''0.000000''],
            written = []\<rparr>)
   \<and> client_Do zone_not_found_world (requests start)
        (ElectricityMapsGet ''em-key'' ''0.000000'' ''0.000000'')
       = Inr \<lparr>StatusCode = 404, Body = Inr ''Not Found''\<rparr>
   \<and> enrich_region zone_not_found_world ''em-key'' ''t0'' start blank_region
       = (Ok (blank_region\<lparr>WattTimeRegion := ''PJM_DC''\<rparr>),
          \<lparr>requests = [ElectricityMapsGet ''em-key'' ''0.000000'' ''0.000000'',
                        WattTimeRegionGet ''t0'' ''0.000000'' ''0.000000''],
            written = []\<rparr>)
   \<and> enrich_regions zone_not_found_world ''em-key'' ''t0'' start [blank_region, full_region]
       = (Ok [blank_region\<lparr>WattTimeRegion := ''PJM_DC''\<rparr>, full_region],
          \<lparr>requests = [ElectricityMapsGet ''em-key'' ''0.000000'' ''0.000000'',
                        WattTimeRegionGet ''t0'' ''0.000000'' ''0.000000''],
            written = []\<rparr>)
   \<and> client_Do region_not_found_world
        (requests \<lparr>requests = [ElectricityMapsGet ''em-key'' ''0.000000'' ''0.000000''],
                   written = []\<rparr>)
        (WattTimeRegionGet ''t0'' ''0.000000'' ''0.000000'')
       = Inr \<lparr>StatusCode = 404, Body = Inr ''Not Found''\<rparr>
   \<and> enrich_region region_not_found_world ''em-key'' ''t0'' start blank_region
       = (Ok (blank_region\<lparr>ElectricityMapsZone := ''US-VA''\<rparr>),
          sent (WattTimeRegionGet ''t0'' ''0.000000'' ''0.000000'')
            \<lparr>requests = [ElectricityMapsGet ''em-key'' ''0.000000'' ''0.000000''],
              written = []\<rparr>)"
proof -
  note both = not_found_is_empty_result
          [where w = not_found_world and k = "''em-key''" and t = "''t0''" and lat = 0 and lon = 0
             and s = start and resp = "\<lparr>StatusCode = 404, Body = Inr ''Not Found''\<rparr>"
             and resp' = "\<lparr>StatusCode = 404, Body = Inr ''Not Found''\<rparr>"
             and region = blank_region
             and zreq = "ElectricityMapsGet ''em-key'' ''0.000000'' ''0.000000''"
             and rreq = "WattTimeRegionGet ''t0'' ''0.000000'' ''0.000000''"
             and zresp = "\<lparr>StatusCode = 404, Body = Inr ''Not Found''\<rparr>"
             and rresp = "\<lparr>StatusCode = 404, Body = Inr ''Not Found''\<rparr>"
             and rest = "[full_region]"]
  have seen: "client_Do not_found_world (requests start)
          (ElectricityMapsGet ''em-key'' ''0.000000'' ''0.000000'')
        = Inr \<lparr>StatusCode = 404, Body = Inr ''Not Found''\<rparr>"
    by (simp add: not_found_world_def is_lookup_def is_zone_lookup_def)
  have status: "StatusCode \<lparr>StatusCode = 404, Body = Inr ''Not Found''\<rparr> = 404"
    by simp
  have blank: "ElectricityMapsZone blank_region = []" "WattTimeRegion blank_region = []"
    "Sprintf_f zone_not_found_world (Latitude blank_region) = ''0.000000''"
    "Sprintf_f zone_not_found_world (Longitude blank_region) = ''0.000000''"
    "Sprintf_f region_not_found_world (Latitude blank_region) = ''0.000000''"
    "Sprintf_f region_not_found_world (Longitude blank_region) = ''0.000000''"
    "NewRequest zone_not_found_world req = None"
    "NewRequest region_not_found_world req = None" for req
    by (simp_all add: blank_region_def zone_not_found_world_def region_not_found_world_def
          stub_world_def)
  let ?zreq = "ElectricityMapsGet ''em-key'' ''0.000000'' ''0.000000''"
  let ?wreq = "WattTimeRegionGet ''t0'' ''0.000000'' ''0.000000''"
  let ?after = "\<lparr>requests = [?zreq, ?wreq], written = []\<rparr>"
  note zone_only = not_found_is_empty_result
          [where w = zone_not_found_world and k = "''em-key''" and t = "''t0''" and s = start
             and region = blank_region and zreq = ?zreq
             and zresp = "\<lparr>StatusCode = 404, Body = Inr ''Not Found''\<rparr>"
             and first = blank_region
             and first' = "blank_region\<lparr>WattTimeRegion := ''PJM_DC''\<rparr>"
             and after = ?after and others = "[full_region]"]
  have "enrich_region zone_not_found_world ''em-key'' ''t0'' start blank_region
          = (if WattTimeRegion blank_region = []
             then and_then (getWattTimeRegion zone_not_found_world (sent ?zreq start) ''t0''
                              (Latitude blank_region) (Longitude blank_region))
                    (\<lambda>regionID s. (Ok (blank_region\<lparr>WattTimeRegion := regionID\<rparr>), s))
             else (Ok blank_region, sent ?zreq start))"
    using zone_only blank(1,3,4,7) zone_not_found_calls(1) status by presburger
  then have zone_row: "enrich_region zone_not_found_world ''em-key'' ''t0'' start blank_region
          = (Ok (blank_region\<lparr>WattTimeRegion := ''PJM_DC''\<rparr>), ?after)"
    by (simp only: zone_not_found_calls(2))
  then have "enrich_regions zone_not_found_world ''em-key'' ''t0'' start [blank_region, full_region]
          = and_then (enrich_regions zone_not_found_world ''em-key'' ''t0'' ?after [full_region])
              (\<lambda>rest s. (Ok (blank_region\<lparr>WattTimeRegion := ''PJM_DC''\<rparr> # rest), s))"
    using zone_only by blast
  then have zone_loop:
    "enrich_regions zone_not_found_world ''em-key'' ''t0'' start [blank_region, full_region]
       = (Ok [blank_region\<lparr>WattTimeRegion := ''PJM_DC''\<rparr>, full_region], ?after)"
    by (simp only: zone_not_found_calls(3))
  note region_only = not_found_is_empty_result
          [where w = region_not_found_world and k = "''em-key''" and t = "''t0''" and s = start
             and row = blank_region
             and row' = "blank_region\<lparr>ElectricityMapsZone := ''US-VA''\<rparr>"
             and s' = "\<lparr>requests = [?zreq], written = []\<rparr>"
             and wreq = ?wreq
             and wresp = "\<lparr>StatusCode = 404, Body = Inr ''Not Found''\<rparr>"]
  have region_row: "enrich_region region_not_found_world ''em-key'' ''t0'' start blank_region
       = (Ok (blank_region\<lparr>ElectricityMapsZone := ''US-VA''\<rparr>),
          sent ?wreq \<lparr>requests = [?zreq], written = []\<rparr>)"
    using region_only blank(2,5,6,8) region_not_found_calls status by presburger
  from both seen not_found_calls have old:
    "getElectricityMapsZone not_found_world start ''em-key'' 0 0 = (Ok [], sent ?zreq start)"
    "getWattTimeRegion not_found_world start ''t0'' 0 0 = (Ok [], sent ?wreq start)"
    "enrich_regions not_found_world ''em-key'' ''t0'' start [blank_region, full_region]
       = (Ok [blank_region, full_region], ?after)"
    by simp_all
  show ?thesis
    by (intro conjI status seen old zone_not_found_calls(1) zone_row zone_loop
          region_not_found_calls(2) region_row)
qed

section \<open>Any other status than 200 and 404 (C5)\<close>


lemma zone_server_error:
  assumes "NewRequest w (ElectricityMapsGet k (Sprintf_f w lat) (Sprintf_f w lon)) = None"
    and "client_Do w (requests s) (ElectricityMapsGet k (Sprintf_f w lat) (Sprintf_f w lon))
           = Inr resp"
    and "StatusCode resp \<noteq> 200" and "StatusCode resp \<noteq> 404"
  shows "getElectricityMapsZone w s k lat lon
           = (Err (status_error (StatusCode resp)),
              sent (ElectricityMapsGet k (Sprintf_f w lat) (Sprintf_f w lon)) s)"
  using assms by (simp add: getElectricityMapsZone_def)

lemma region_server_error:
  assumes "NewRequest w (WattTimeRegionGet t (Sprintf_f w lat) (Sprintf_f w lon)) = None"
    and "client_Do w (requests s) (WattTimeRegionGet t (Sprintf_f w lat) (Sprintf_f w lon))
           = Inr resp"
    and "StatusCode resp \<noteq> 200" and "StatusCode resp \<noteq> 404"
  shows "getWattTimeRegion w s t lat lon
           = (Err (status_error (StatusCode resp)),
              sent (WattTimeRegionGet t (Sprintf_f w lat) (Sprintf_f w lon)) s)"
  using assms by (simp add: getWattTimeRegion_def)

text \<open>
  C5. A zone or region lookup answered with a status that is neither 200 nor 404
  returns an error. And in every run in which some lookup was answered so, the run
  returns an error and has written nothing, neither the header nor a row.
\<close>

theorem failed_lookup_aborts_run:
  "(NewRequest w (ElectricityMapsGet k (Sprintf_f w lat) (Sprintf_f w lon)) = None
      \<and> client_Do w (requests s) (ElectricityMapsGet k (Sprintf_f w lat) (Sprintf_f w lon))
          = Inr resp
      \<and> StatusCode resp \<noteq> 200 \<and> StatusCode resp \<noteq> 404
    \<longrightarrow> getElectricityMapsZone w s k lat lon
          = (Err (status_error (StatusCode resp)),
             sent (ElectricityMapsGet k (Sprintf_f w lat) (Sprintf_f w lon)) s))
   \<and> (NewRequest w (WattTimeRegionGet t (Sprintf_f w lat) (Sprintf_f w lon)) = None
      \<and> client_Do w (requests s) (WattTimeRegionGet t (Sprintf_f w lat) (Sprintf_f w lon))
          = Inr resp'
      \<and> StatusCode resp' \<noteq> 200 \<and> StatusCode resp' \<noteq> 404
    \<longrightarrow> getWattTimeRegion w s t lat lon
          = (Err (status_error (StatusCode resp')),
             sent (WattTimeRegionGet t (Sprintf_f w lat) (Sprintf_f w lon)) s))
   \<and> (lookup_failed w (requests (snd (mainWithError w)))
    \<longrightarrow> is_Err (fst (mainWithError w)) \<and> written (snd (mainWithError w)) = [])"
  using zone_server_error [where w = w and k = k and lat = lat and lon = lon and s = s and resp = resp]
    region_server_error [where w = w and t = t and lat = lat and lon = lon and s = s and resp = resp']
    run_aborts_on_failed_lookup [where w = w]
  by blast

lemma server_error_run:
  "mainWithError server_error_world
     = (Err (errorString ''expected 200 response got 500''),
        \<lparr>requests = [WattTimeLoginGet ''wt-user'' ''wt-password'',
                      OpenStreetMapGet ''city'' ''N. Virginia'',
                      ElectricityMapsGet ''em-key'' ''37.500000'' ''-78.600000''],
          written = []\<rparr>)"
  by code_simp

lemma server_error_seen:
  "lookup_failed server_error_world
     [WattTimeLoginGet ''wt-user'' ''wt-password'', OpenStreetMapGet ''city'' ''N. Virginia'',
      ElectricityMapsGet ''em-key'' ''37.500000'' ''-78.600000'']"
  by code_simp

theorem failed_lookup_witness:
  "lookup_failed server_error_world (requests (snd (mainWithError server_error_world)))
   \<and> is_Err (fst (mainWithError server_error_world))
   \<and> written (snd (mainWithError server_error_world)) = []
   \<and> mainWithError server_error_world
       = (Err (errorString ''expected 200 response got 500''),
          \<lparr>requests = [WattTimeLoginGet ''wt-user'' ''wt-password'',
                        OpenStreetMapGet ''city'' ''N. Virginia'',
                        ElectricityMapsGet ''em-key'' ''37.500000'' ''-78.600000''],
            written = []\<rparr>)"
proof -
  note claim = failed_lookup_aborts_run
          [where w = server_error_world and k = "''em-key''" and t = "''t0''" and lat = 0 and lon = 0
             and s = start
             and resp = "\<lparr>StatusCode = 500, Body = Inr ''Internal Server Error''\<rparr>"
             and resp' = "\<lparr>StatusCode = 500, Body = Inr ''Internal Server Error''\<rparr>"]
  have "lookup_failed server_error_world (requests (snd (mainWithError server_error_world)))"
    using server_error_seen by (simp add: server_error_run)
  with claim server_error_run show ?thesis
    by simp
qed

section \<open>Rows that bring their coordinates (C7)\<close>


lemma load_coordinates_given:
  assumes "8 \<le> length row" and "row ! 6 \<noteq> []" and "row ! 7 \<noteq> []"
  shows "load_coordinates w s row
           = (case ParseFloat w (row ! 6) of
                Inl e \<Rightarrow> (Err e, s)
              | Inr latitude \<Rightarrow>
                  (case ParseFloat w (row ! 7) of
                     Inl e \<Rightarrow> (Err e, s)
                   | Inr longitude \<Rightarrow> (Ok (latitude, longitude), s)))"
  using assms by (simp add: load_coordinates_def and_then_def index_def split: sum.splits)

lemma load_region_given:
  assumes "10 \<le> length row" and "row ! 6 \<noteq> []" and "row ! 7 \<noteq> []"
  shows "load_region w s row
           = (case ParseFloat w (row ! 6) of
                Inl e \<Rightarrow> (Err e, s)
              | Inr latitude \<Rightarrow>
                  (case ParseFloat w (row ! 7) of
                     Inl e \<Rightarrow> (Err e, s)
                   | Inr longitude \<Rightarrow>
                       (Ok \<lparr>CloudProvider = row ! 0, CloudRegion = row ! 1, Location = row ! 2,
                            LocationOverride = row ! 3, LocationSource = row ! 4,
                            LocationType = row ! 5, Latitude = latitude, Longitude = longitude,
                            ElectricityMapsZone = row ! 8, WattTimeRegion = row ! 9\<rparr>, s)))"
proof -
  have at: "index row i = Ok (row ! i)" if "i < 10" for i
    using that assms(1) by (simp add: index_def)
  have "8 \<le> length row"
    using assms(1) by simp
  then show ?thesis
    using assms(2,3)
    by (simp add: load_region_def load_coordinates_given and_then_def at split: sum.splits)
qed

lemma csv_Read_expected_length:
  assumes "unread reader = Fields row # rest" and "FieldsPerRecord reader = int (length row)"
  shows "csv_Read reader = ((row, None), reader\<lparr>unread := rest\<rparr>)"
  using assms by (cases "length row = 0") (simp_all add: csv_Read_def)

lemma load_loop_step:
  assumes "unread reader = Fields row # rest" and "FieldsPerRecord reader = int (length row)"
  shows "load_loop w s reader regions
           = (case load_region w s row of
                (Ok region, s') \<Rightarrow> load_loop w s' (reader\<lparr>unread := rest\<rparr>) (regions @ [region])
              | (Err e, s') \<Rightarrow> (Err e, s')
              | (Panic p, s') \<Rightarrow> (Panic p, s'))"
  using csv_Read_expected_length [OF assms]
  by (simp add: load_loop.simps [of w s reader])

text \<open>
  C7, amended. When the loading loop reads a row of the expected length whose latitude
  and longitude fields are both non-empty, it calls \<^verbatim>\<open>strconv.ParseFloat\<close> on the two
  fields and, if both calls succeed, goes on with a region that has exactly the values
  they returned, in the same state: no request is sent. If the call fails for the
  latitude, or succeeds for the latitude and fails for the longitude, loading returns
  that error. And an error of \<^verbatim>\<open>loadRegions\<close> is the error of the run.
\<close>

theorem coordinates_from_the_row:
  assumes "unread reader = Fields row # rest"
    and "FieldsPerRecord reader = int (length row)"
    and "10 \<le> length row"
    and "row ! 6 \<noteq> []" and "row ! 7 \<noteq> []"
  shows
    "(ParseFloat w (row ! 6) = Inr latitude \<and> ParseFloat w (row ! 7) = Inr longitude \<longrightarrow>
        load_loop w s reader regions
          = load_loop w s (reader\<lparr>unread := rest\<rparr>)
              (regions @ [\<lparr>CloudProvider = row ! 0, CloudRegion = row ! 1, Location = row ! 2,
                            LocationOverride = row ! 3, LocationSource = row ! 4,
                            LocationType = row ! 5, Latitude = latitude, Longitude = longitude,
                            ElectricityMapsZone = row ! 8, WattTimeRegion = row ! 9\<rparr>]))
     \<and> (ParseFloat w (row ! 6) = Inl e \<longrightarrow> load_loop w s reader regions = (Err e, s))
     \<and> (ParseFloat w (row ! 6) = Inr latitude \<and> ParseFloat w (row ! 7) = Inl e \<longrightarrow>
        load_loop w s reader regions = (Err e, s))
     \<and> (Getenv w electricityMapsAPIKeyEnvVar \<noteq> [] \<and> Getenv w wattTimeUserEnvVar \<noteq> []
        \<and> Getenv w wattTimePasswordEnvVar \<noteq> []
        \<and> getWattTimeAccessToken w start (Getenv w wattTimeUserEnvVar)
              (Getenv w wattTimePasswordEnvVar) = (Ok token, s1)
        \<and> index (Args w) 1 = Ok fileName
        \<and> loadRegions w s1 fileName = (Err e, s2) \<longrightarrow>
        mainWithError w = (Err e, s2))"
proof (intro conjI impI)
  note step = load_loop_step [OF assms(1,2), of w s regions]
    and region = load_region_given [OF assms(3,4,5), of w s]
  show "load_loop w s reader regions
          = load_loop w s (reader\<lparr>unread := rest\<rparr>)
              (regions @ [\<lparr>CloudProvider = row ! 0, CloudRegion = row ! 1, Location = row ! 2,
                            LocationOverride = row ! 3, LocationSource = row ! 4,
                            LocationType = row ! 5, Latitude = latitude, Longitude = longitude,
                            ElectricityMapsZone = row ! 8, WattTimeRegion = row ! 9\<rparr>])"
    if "ParseFloat w (row ! 6) = Inr latitude \<and> ParseFloat w (row ! 7) = Inr longitude"
    using that step region by simp
  show "load_loop w s reader regions = (Err e, s)" if "ParseFloat w (row ! 6) = Inl e"
    using that step region by simp
  show "load_loop w s reader regions = (Err e, s)"
    if "ParseFloat w (row ! 6) = Inr latitude \<and> ParseFloat w (row ! 7) = Inl e"
    using that step region by simp
  show "mainWithError w = (Err e, s2)"
    if "Getenv w electricityMapsAPIKeyEnvVar \<noteq> [] \<and> Getenv w wattTimeUserEnvVar \<noteq> []
        \<and> Getenv w wattTimePasswordEnvVar \<noteq> []
        \<and> getWattTimeAccessToken w start (Getenv w wattTimeUserEnvVar)
              (Getenv w wattTimePasswordEnvVar) = (Ok token, s1)
        \<and> index (Args w) 1 = Ok fileName
        \<and> loadRegions w s1 fileName = (Err e, s2)"
    using that by (simp add: mainWithError_def start_def and_then_def)
qed

lemma given_coordinates_calls:
  "load_loop stub_world start \<lparr>FieldsPerRecord = 10, unread = [Fields full_row]\<rparr> []
     = (Ok [full_region], start)"
  "load_loop stub_world start \<lparr>FieldsPerRecord = 10, unread = [Fields bad_longitude_row]\<rparr> []
     = (Err (lib_error ''strconv.ParseFloat: invalid syntax''), start)"
  "load_loop bad_latitude_world start
     \<lparr>FieldsPerRecord = 10, unread = [Fields bad_latitude_row]\<rparr> []
     = (Err (lib_error ''strconv.ParseFloat: invalid syntax''), start)"
  "mainWithError bad_latitude_world
     = (Err (lib_error ''strconv.ParseFloat: invalid syntax''),
        \<lparr>requests = [WattTimeLoginGet ''wt-user'' ''wt-password''], written = []\<rparr>)"
  by code_simp+

theorem coordinates_from_the_row_witness:
  "full_row ! 6 \<noteq> [] \<and> full_row ! 7 \<noteq> []
   \<and> ParseFloat stub_world (full_row ! 6) = Inr 0x4042C00000000000
   \<and> ParseFloat stub_world (full_row ! 7) = Inr 0xC053A66666666666
   \<and> ParseFloat stub_world (bad_longitude_row ! 7)
       = Inl (lib_error ''strconv.ParseFloat: invalid syntax'')
   \<and> ParseFloat bad_latitude_world (bad_latitude_row ! 6)
       = Inl (lib_error ''strconv.ParseFloat: invalid syntax'')
   \<and> load_loop stub_world start \<lparr>FieldsPerRecord = 10, unread = [Fields full_row]\<rparr> []
       = (Ok [full_region], start)
   \<and> load_loop stub_world start \<lparr>FieldsPerRecord = 10, unread = [Fields bad_longitude_row]\<rparr> []
       = (Err (lib_error ''strconv.ParseFloat: invalid syntax''), start)
   \<and> load_loop bad_latitude_world start
         \<lparr>FieldsPerRecord = 10, unread = [Fields bad_latitude_row]\<rparr> []
       = (Err (lib_error ''strconv.ParseFloat: invalid syntax''), start)
   \<and> mainWithError bad_latitude_world
       = (Err (lib_error ''strconv.ParseFloat: invalid syntax''),
          \<lparr>requests = [WattTimeLoginGet ''wt-user'' ''wt-password''], written = []\<rparr>)"
proof -
  have good: "full_row ! 6 \<noteq> []" "full_row ! 7 \<noteq> []"
    "ParseFloat stub_world (full_row ! 6) = Inr 0x4042C00000000000"
    "ParseFloat stub_world (full_row ! 7) = Inr 0xC053A66666666666"
    by (simp_all add: full_row_def stub_world_def)
  have bad: "ParseFloat stub_world (bad_longitude_row ! 7)
               = Inl (lib_error ''strconv.ParseFloat: invalid syntax'')"
    "ParseFloat bad_latitude_world (bad_latitude_row ! 6)
               = Inl (lib_error ''strconv.ParseFloat: invalid syntax'')"
    by (simp_all add: bad_longitude_row_def bad_latitude_row_def bad_latitude_world_def
          full_row_def stub_world_def)
  note good_case = coordinates_from_the_row
      [where reader = "\<lparr>FieldsPerRecord = 10, unread = [Fields full_row]\<rparr>"
         and row = full_row and rest = "[]" and w = stub_world and s = start and regions = "[]"
         and latitude = "0x4042C00000000000" and longitude = "0xC053A66666666666"]
  note bad_longitude_case = coordinates_from_the_row
      [where reader = "\<lparr>FieldsPerRecord = 10, unread = [Fields bad_longitude_row]\<rparr>"
         and row = bad_longitude_row and rest = "[]" and w = stub_world and s = start
         and regions = "[]" and latitude = "0x4042C00000000000"
         and e = "lib_error ''strconv.ParseFloat: invalid syntax''"]
  note bad_latitude_case = coordinates_from_the_row
      [where reader = "\<lparr>FieldsPerRecord = 10, unread = [Fields bad_latitude_row]\<rparr>"
         and row = bad_latitude_row and rest = "[]" and w = bad_latitude_world and s = start
         and regions = "[]" and e = "lib_error ''strconv.ParseFloat: invalid syntax''"]
  from good bad good_case bad_longitude_case bad_latitude_case given_coordinates_calls
  show ?thesis
    by simp
qed

text \<open>
  C7, as stated: a row with a non-numeric coordinate field fails to load. Whether a
  field is accepted is decided by \<^verbatim>\<open>strconv.ParseFloat\<close> alone, and it accepts texts that
  are not decimal numbers: \<open>NaN\<close>, \<open>Inf\<close>, \<open>Infinity\<close>. In \<open>nan_world\<close> the only row has
  the latitude \<open>NaN\<close>; it loads without an error, with a latitude that is not a number,
  and the run ends without an error and writes the row.
\<close>

theorem nan_latitude_is_loaded:
  "nan_row ! 6 = ''NaN'' \<and> nan_row ! 7 = ''-78.600000''
   \<and> loadRegions nan_world start ''regions.csv''
       = (Ok [full_region\<lparr>Latitude := 0x7FF8000000000001\<rparr>], start)
   \<and> mainWithError nan_world
       = (Ok (), \<lparr>requests = [WattTimeLoginGet ''wt-user'' ''wt-password''],
                  written = [header, nan_row]\<rparr>)"
  by code_simp

section \<open>Feeding the output back in (C9)\<close>






















end
